theory Spec2Isabelle
  imports Main
begin

section \<open>Shared editor types\<close>

text \<open>
  An optional value (\<open>T | undefined\<close>) is an \<open>option\<close>; \<open>None\<close> is \<open>undefined\<close>. A
  \<open>Uri\<close> is read only through \<open>fsPath\<close>.
\<close>

datatype Uri = Uri (scheme: string) (fsPath: string)

datatype Commands =
    ShowQuickCommitDetails
  | DiffWithPrevious
  | DiffWithWorking
  | CopyShaToClipboard
  | CopyMessageToClipboard
  | ShowQuickFileHistory
  | ShowQuickCommitFileDetails

datatype BuiltInCommands = Diff | RevealLine

section \<open>The command \<open>DiffLineWithPreviousCommand\<close>: \<open>src/unnamed/part_000\<close>\<close>

text \<open>
  The file belongs to a revision of the extension whose git layer is \<open>GitProvider\<close>. Its
  classes are declared outside \<open>src/\<close>; each is modelled by the properties this file reads.
  \<open>blame_commit\<close> and \<open>blame_line\<close> are the properties \<open>commit\<close> and \<open>line\<close> of the blame.
\<close>

record GitCommit =
  repoPath :: string
  sha :: "string option"
  fileName :: "string option"
  author :: string
  date :: string
  message :: string
  previousSha :: "string option"
  previousFileName :: "string option"

record GitUri =
  fsPath :: string
  repoPath :: string
  sha :: "string option"
  offset :: int

record GitCommitLine =
  line :: int

record GitBlameLine =
  blame_commit :: GitCommit
  blame_line :: GitCommitLine

record TextEditor =
  document_uri :: "Uri option"
  selection_active_line :: int

datatype Exception = Exception string

datatype Any = Undefined | Any string

datatype CommandId = Command Commands | BuiltIn BuiltInCommands

text \<open>
  The arguments of the dispatched commands. \<open>ArgTitle a s b t\<close> is the template of line 60
  with its four interpolated values; \<open>ArgReveal n at\<close> is \<open>{ lineNumber: n, at: at }\<close>.
\<close>

datatype Argument =
    ArgUri Uri
  | ArgCommit GitCommit
  | ArgLine int
  | ArgTitle string "string option" string "string option"
  | ArgReveal int string

text \<open>\<open>BlameCall n\<close> is the template \<open>getBlameForLine(n)\<close> of line 50.\<close>

datatype LogText = Str string | BlameCall int

datatype Effect =
    GetBlameForLine string int "string option" string
  | GetVersionedFile string string "string option"
  | ExecuteCommand CommandId "Argument list"
  | ShowWarningMessage string
  | ShowErrorMessage string
  | LoggerError string LogText

text \<open>
  The git provider and the editor, as parameters: what each call answers is a function
  of its arguments. A query of the provider answers or throws (the source catches it); a
  call into the editor settles to a value or rejects.
  \<open>isUncommittedSha\<close> is the static \<open>GitProvider.isUncommitted\<close>, \<open>isUncommitted\<close> and \<open>uri\<close>
  are the getters of \<open>GitCommit\<close>, \<open>new_GitCommit\<close> its constructor called with six
  arguments, \<open>fromUri\<close> is \<open>GitUri.fromUri(uri, git)\<close>.
\<close>

record Host =
  getBlameForLine :: "string \<Rightarrow> int \<Rightarrow> string option \<Rightarrow> string \<Rightarrow> Exception + GitBlameLine option"
  getVersionedFile :: "string \<Rightarrow> string \<Rightarrow> string option \<Rightarrow> Exception + string"
  isUncommittedSha :: "string option \<Rightarrow> bool"
  isUncommitted :: "GitCommit \<Rightarrow> bool"
  uri :: "GitCommit \<Rightarrow> Uri"
  new_GitCommit :: "string \<Rightarrow> string option \<Rightarrow> string option \<Rightarrow> string \<Rightarrow> string \<Rightarrow> string \<Rightarrow> GitCommit"
  fromUri :: "Uri \<Rightarrow> GitUri"
  Uri_file :: "string \<Rightarrow> Uri"
  path_basename :: "string \<Rightarrow> string"
  executeCommand :: "CommandId \<Rightarrow> Argument list \<Rightarrow> Exception + Any"
  showWarningMessage :: "string \<Rightarrow> Exception + Any"
  showErrorMessage :: "string \<Rightarrow> Exception + Any"

text \<open>
  Lines 37 and 44: the commit is replaced by its previous revision.
\<close>

definition previousRevision :: "Host \<Rightarrow> GitCommit \<Rightarrow> GitCommit" where
  "previousRevision host c =
     new_GitCommit host (GitCommit.repoPath c) (previousSha c) (previousFileName c)
       (author c) (date c) (message c)"

text \<open>
  Lines 63-66, and 49-52 with the other log text: the handler of both \<open>try\<close> blocks. It
  logs, shows the error message and returns what that call returns.
\<close>

definition failed :: "Host \<Rightarrow> LogText \<Rightarrow> (Exception + Any) \<times> Effect list" where
  "failed host what =
     (showErrorMessage host ''Unable to open diff. See output channel for more details'',
      [LoggerError ''[GitLens.DiffWithPreviousLineCommand]'' what,
       ShowErrorMessage ''Unable to open diff. See output channel for more details''])"

text \<open>
  Lines 55-66, the diff stage. Both \<open>getVersionedFile\<close> calls are made before
  \<open>Promise.all\<close> waits for them; if either throws, or a dispatch rejects, the handler runs.
\<close>

definition diffStage :: "Host \<Rightarrow> GitUri \<Rightarrow> GitCommit \<Rightarrow> int \<Rightarrow> (Exception + Any) \<times> Effect list" where
  "diffStage host gitUri c ln =
     (let q0 = GetVersionedFile (GitUri.fsPath gitUri) (GitUri.repoPath gitUri) (GitUri.sha gitUri);
          q1 = GetVersionedFile (Uri.fsPath (uri host c)) (GitCommit.repoPath c) (GitCommit.sha c)
      in case (getVersionedFile host (GitUri.fsPath gitUri) (GitUri.repoPath gitUri) (GitUri.sha gitUri),
               getVersionedFile host (Uri.fsPath (uri host c)) (GitCommit.repoPath c) (GitCommit.sha c)) of
           (Inr v0, Inr v1) \<Rightarrow>
             (let diffArgs =
                    [ArgUri (Uri_file host v1), ArgUri (Uri_file host v0),
                     ArgTitle (path_basename host (Uri.fsPath (uri host c))) (GitCommit.sha c)
                       (path_basename host (GitUri.fsPath gitUri)) (GitUri.sha gitUri)];
                  revealArgs = [ArgReveal ln ''center'']
              in case executeCommand host (BuiltIn Diff) diffArgs of
                   Inl ex \<Rightarrow>
                     (case failed host (Str ''getVersionedFile'') of
                        (r, evs) \<Rightarrow> (r, [q0, q1, ExecuteCommand (BuiltIn Diff) diffArgs] @ evs))
                 | Inr d \<Rightarrow>
                     (case executeCommand host (BuiltIn RevealLine) revealArgs of
                        Inl ex \<Rightarrow>
                          (case failed host (Str ''getVersionedFile'') of
                             (r, evs) \<Rightarrow>
                               (r, [q0, q1, ExecuteCommand (BuiltIn Diff) diffArgs,
                                    ExecuteCommand (BuiltIn RevealLine) revealArgs] @ evs))
                      | Inr v \<Rightarrow>
                          (Inr v, [q0, q1, ExecuteCommand (BuiltIn Diff) diffArgs,
                                   ExecuteCommand (BuiltIn RevealLine) revealArgs])))
         | _ \<Rightarrow>
             (case failed host (Str ''getVersionedFile'') of (r, evs) \<Rightarrow> (r, [q0, q1] @ evs)))"

text \<open>
  Lines 18-21: the uri the command works on. The argument \<open>u0\<close> is \<open>Some\<close> when it is an
  instance of \<open>Uri\<close>; otherwise the editor's document gives it, and there is none when the
  editor has no document.
\<close>

definition resolveUri :: "TextEditor \<Rightarrow> Uri option \<Rightarrow> Uri option" where
  "resolveUri editor u0 = (case u0 of Some u \<Rightarrow> Some u | None \<Rightarrow> document_uri editor)"

text \<open>
  Line 23: \<open>line || editor.selection.active.line\<close> falls back to the selection when the
  line is undefined or 0.
\<close>

definition selectedLine :: "TextEditor \<Rightarrow> int option \<Rightarrow> int" where
  "selectedLine editor line0 =
     (case line0 of
        Some l \<Rightarrow> if l \<noteq> 0 then l else selection_active_line editor
      | None \<Rightarrow> selection_active_line editor)"

text \<open>Line 26: no commit was supplied, or the supplied one is uncommitted.\<close>

definition needsBlame :: "Host \<Rightarrow> GitCommit option \<Rightarrow> bool" where
  "needsBlame host commit0 =
     (case commit0 of None \<Rightarrow> True | Some c \<Rightarrow> isUncommittedSha host (GitCommit.sha c))"

text \<open>
  Lines 17-67. Lines 32 and 46 return the editor's promise from inside \<open>try\<close> without
  awaiting it, so a rejection of it is the result and does not reach the handler.
\<close>

definition DiffLineWithPreviousCommand_execute ::
  "Host \<Rightarrow> TextEditor \<Rightarrow> Uri option \<Rightarrow> GitCommit option \<Rightarrow> int option
     \<Rightarrow> (Exception + Any) \<times> Effect list" where
  "DiffLineWithPreviousCommand_execute host editor u0 commit0 line0 =
     (case resolveUri editor u0 of
        None \<Rightarrow> (Inr Undefined, [])
      | Some u \<Rightarrow>
          (let ln = selectedLine editor line0;
               gitUri = fromUri host u
           in if needsBlame host commit0 then
                (let blameline = ln - offset gitUri
                 in if blameline < 0 then (Inr Undefined, [])
                    else
                      (let q = GetBlameForLine (GitUri.fsPath gitUri) blameline (GitUri.sha gitUri)
                                 (GitUri.repoPath gitUri)
                       in case getBlameForLine host (GitUri.fsPath gitUri) blameline (GitUri.sha gitUri)
                                 (GitUri.repoPath gitUri) of
                            Inl ex \<Rightarrow>
                              (case failed host (BlameCall blameline) of (r, evs) \<Rightarrow> (r, q # evs))
                          | Inr None \<Rightarrow>
                              (showWarningMessage host
                                 ''Unable to open diff. File is probably not under source control'',
                               [q, ShowWarningMessage
                                     ''Unable to open diff. File is probably not under source control''])
                          | Inr (Some blame) \<Rightarrow>
                              (let matches = (GitUri.sha gitUri = GitCommit.sha (blame_commit blame));
                                   c1 = (if matches then previousRevision host (blame_commit blame)
                                         else blame_commit blame);
                                   ln1 = (if matches
                                          then GitCommitLine.line (blame_line blame) + 1 + offset gitUri
                                          else ln)
                               in if isUncommitted host c1 then
                                    (let args = [ArgUri (uri host c1),
                                                 ArgCommit (previousRevision host c1),
                                                 ArgLine (GitCommitLine.line (blame_line blame) + 1
                                                          + offset gitUri)]
                                     in (executeCommand host (Command DiffWithWorking) args,
                                         [q, ExecuteCommand (Command DiffWithWorking) args]))
                                  else
                                    (case diffStage host gitUri c1 ln1 of (r, evs) \<Rightarrow> (r, q # evs)))))
              else
                (case commit0 of
                   Some c \<Rightarrow> diffStage host gitUri c ln
                 | None \<Rightarrow> (Inr Undefined, []))))"

text \<open>
  The last case cannot be reached: without a commit \<open>needsBlame\<close> holds.
\<close>

subsection \<open>Sample inputs\<close>

text \<open>
  A host in which the sha \<open>0000\<close> marks an uncommitted commit, the blame of every line
  names an uncommitted commit, and every call into the editor settles to \<open>undefined\<close>.
\<close>

definition sample_commit :: GitCommit where
  "sample_commit =
     \<lparr>GitCommit.repoPath = ''/repo'', GitCommit.sha = Some ''abc'', fileName = Some ''a.ts'', author = ''ann'',
      date = ''2017-03-01'', message = ''fix'', previousSha = Some ''abb'',
      previousFileName = Some ''a.ts''\<rparr>"

definition sample_host :: Host where
  "sample_host =
     \<lparr>getBlameForLine = (\<lambda>f n s r.
        Inr (Some \<lparr>blame_commit = sample_commit\<lparr>GitCommit.sha := Some ''0000''\<rparr>,
                   blame_line = \<lparr>line = n\<rparr>\<rparr>)),
      getVersionedFile = (\<lambda>f r s. Inr (''/tmp/'' @ f)),
      isUncommittedSha = (\<lambda>s. s = Some ''0000''),
      isUncommitted = (\<lambda>c. GitCommit.sha c = Some ''0000''),
      uri = (\<lambda>c. Uri ''file'' (GitCommit.repoPath c @ ''/'' @ (case fileName c of Some f \<Rightarrow> f | None \<Rightarrow> []))),
      new_GitCommit = (\<lambda>r s f a d m.
        \<lparr>GitCommit.repoPath = r, GitCommit.sha = s, fileName = f, author = a, date = d, message = m,
         previousSha = None, previousFileName = None\<rparr>),
      fromUri = (\<lambda>u. \<lparr>fsPath = Uri.fsPath u, repoPath = ''/repo'', sha = Some ''abd'', offset = 2\<rparr>),
      Uri_file = Uri ''file'',
      path_basename = (\<lambda>p. p),
      executeCommand = (\<lambda>c args. Inr Undefined),
      showWarningMessage = (\<lambda>m. Inr Undefined),
      showErrorMessage = (\<lambda>m. Inr Undefined)\<rparr>"

text \<open>The same host with a provider that cannot read any version of a file.\<close>

definition failing_host :: Host where
  "failing_host = sample_host\<lparr>getVersionedFile := (\<lambda>f r s. Inl (Exception ''no such revision''))\<rparr>"

text \<open>The same host with a provider that has no blame for any line.\<close>

definition blameless_host :: Host where
  "blameless_host = sample_host\<lparr>getBlameForLine := (\<lambda>f n s r. Inr None)\<rparr>"

definition sample_editor :: TextEditor where
  "sample_editor = \<lparr>document_uri = Some (Uri ''file'' ''/repo/a.ts''), selection_active_line = 7\<rparr>"

section \<open>Data of the quick pick: \<open>src/quickPicks/commitFileDetails.ts\<close>\<close>

text \<open>
  The module is glue over the editor API and the git service. Values that cross that
  boundary are modelled by the fields the source reads.
\<close>

datatype GitCommitType = Blame | Branch | File | Stash

record GitLogCommit =
  sha :: string
  type :: GitCommitType
  repoPath :: string
  fileName :: string
  originalFileName :: "string option"
  workingFileName :: "string option"
  status :: "string option"
  previousSha :: "string option"
  previousFileName :: "string option"
  nextSha :: "string option"
  nextFileName :: "string option"
  author :: string
  message :: string

text \<open>
  \<open>GitLog.commits\<close> is a JavaScript \<open>Map\<close> from sha to commit: it keeps insertion
  order (\<open>Iterables.first(log.commits.values())\<close> reads it), so it is an association list.
\<close>

record GitLog =
  commits :: "(string \<times> GitLogCommit) list"
  sha :: "string option"
  truncated :: bool

record GitRemote =
  provider :: "string option"

record GitBranch =
  name :: string

datatype RemoteResource =
    RemoteResource_file string string
  | RemoteResource_revision string GitLogCommit

record QuickPickItem =
  label :: string
  description :: string

text \<open>
  The items of the picker and the arguments they carry. \<open>GitUriArg u c\<close> is
  \<open>new GitUri(u, c)\<close>; the argument objects are named after the interfaces the source casts
  them to, with their properties in the order the source writes them.
\<close>

datatype CommandQuickPickItem =
    CommandQuickPickItem QuickPickItem Commands "CommandArg list"
  | OpenFileCommandQuickPickItem Uri QuickPickItem
  | OpenRemotesCommandQuickPickItem "GitRemote list" RemoteResource "CommandQuickPickItem option"
and CommandArg =
    UriArg Uri
  | GitUriArg Uri GitLogCommit
  | ShowQuickCommitDetailsCommandArgs GitLogCommit string "CommandQuickPickItem option"
  | DiffWithPreviousCommandArgs GitLogCommit
  | DiffWithWorkingCommandArgs GitLogCommit
  | CopyShaToClipboardCommandArgs string
  | CopyMessageToClipboardCommandArgs string string
  | ShowQuickFileHistoryCommandArgs "GitLog option" "CommandQuickPickItem option"
  | ShowQuickCommitFileDetailsCommandArgs "GitLog option" string "CommandQuickPickItem option"

text \<open>
  A key command is a \<open>KeyCommandQuickPickItem\<close>, the constant \<open>KeyNoopCommand\<close>, or a picker
  item bound to a key (\<open>left: goBackCommand\<close>).
\<close>

datatype KeyCommand =
    KeyCommandQuickPickItem Commands "CommandArg list"
  | KeyNoopCommand
  | KeyCommandItem CommandQuickPickItem

text \<open>
  A key is mapped to \<open>KeyCommand | (() => Promise<KeyCommand>) | undefined\<close>. The two
  closures of the source are kept as their captured variables (\<open>commit\<close>, \<open>uri\<close>,
  \<open>goBackCommand\<close>, \<open>fileLog\<close>); \<open>previousCommand\<close> and \<open>nextCommand\<close> below run them.
\<close>

datatype KeyBinding =
    Direct KeyCommand
  | DeferredPrevious GitLogCommit Uri "CommandQuickPickItem option" "GitLog option"
  | DeferredNext GitLogCommit Uri "CommandQuickPickItem option" "GitLog option"

record KeyMapping =
  left :: "KeyCommand option"
  comma :: "KeyBinding option"
  period :: "KeyBinding option"

record QuickPickOptions =
  matchOnDescription :: bool
  placeHolder :: string
  ignoreFocusOut :: bool

text \<open>
  What the function does to the outside, in order: the queries it sends to the git service
  and the calls into the editor.
\<close>

datatype Event =
    GetLogCommit "string option" string bool
  | GetRemotes string
  | GetBranch string
  | GetLogForFile string string string int
  | FindNextCommit string string string
  | BeginScope KeyMapping
  | ShowQuickPick "CommandQuickPickItem list" QuickPickOptions
  | ScopeDispose

datatype Error = TypeError

text \<open>
  The git service answers queries; its code is outside this module, so it is a parameter:
  one function per method the source calls, from the arguments to a value of the declared
  result type. The source has no handler for a query that throws, and none is modelled.
  \<open>maxQuickHistory\<close> is \<open>git.config.advanced.maxQuickHistory\<close>.
\<close>

record GitService =
  getLogCommit :: "string option \<Rightarrow> string \<Rightarrow> bool \<Rightarrow> GitLogCommit option"
  getRemotes :: "string \<Rightarrow> GitRemote list"
  getBranch :: "string \<Rightarrow> GitBranch option"
  getLogForFile :: "string \<Rightarrow> string \<Rightarrow> string \<Rightarrow> int \<Rightarrow> GitLog option"
  findNextCommit :: "string \<Rightarrow> string \<Rightarrow> string \<Rightarrow> GitLogCommit option"
  maxQuickHistory :: int
  repoPath :: string

text \<open>
  Everything else the module imports and that is not under \<open>src/\<close>: the getters of
  \<open>GitLogCommit\<close>, \<open>GitService.toGitContentUri\<close> (its two call shapes), \<open>Uri.file\<close>,
  \<open>path\<close>, \<open>Strings.pad\<close>, the glyphs, \<open>getQuickPickIgnoreFocusOut\<close> and the user's answer
  to \<open>window.showQuickPick\<close>. They are parameters of the model.
\<close>

record Externals =
  isUncommitted :: "GitLogCommit \<Rightarrow> bool"
  isMerge :: "GitLogCommit \<Rightarrow> bool"
  shortSha :: "GitLogCommit \<Rightarrow> string"
  previousShortSha :: "GitLogCommit \<Rightarrow> string"
  uri :: "GitLogCommit \<Rightarrow> Uri"
  previousUri :: "GitLogCommit \<Rightarrow> Uri"
  nextUri :: "GitLogCommit \<Rightarrow> Uri"
  getFormattedPath :: "GitLogCommit \<Rightarrow> string"
  fromNow :: "GitLogCommit \<Rightarrow> string"
  toGitContentUri_sha :: "string option \<Rightarrow> string option \<Rightarrow> string \<Rightarrow> string option \<Rightarrow> Uri"
  toGitContentUri_commit :: "GitLogCommit \<Rightarrow> Uri"
  Uri_file :: "string \<Rightarrow> Uri"
  path_resolve :: "string \<Rightarrow> string \<Rightarrow> string"
  path_basename :: "string \<Rightarrow> string"
  Strings_pad :: "string \<Rightarrow> nat \<Rightarrow> nat \<Rightarrow> string"
  GlyphChars_Dash :: string
  GlyphChars_Dot :: string
  GlyphChars_Space :: string
  GlyphChars_ArrowRightHollow :: string
  getQuickPickIgnoreFocusOut :: bool
  showQuickPick :: "CommandQuickPickItem list \<Rightarrow> QuickPickOptions \<Rightarrow> CommandQuickPickItem option"

section \<open>The items of the picker\<close>

text \<open>
  JavaScript truthiness of an optional string: \<open>undefined\<close> and the empty string are falsy.
\<close>

definition truthy :: "string option \<Rightarrow> bool" where
  "truthy s = (case s of None \<Rightarrow> False | Some t \<Rightarrow> t \<noteq> [])"

text \<open>\<open>Strings.pad(GlyphChars.Dash, 2, 3)\<close> and \<open>Strings.pad(GlyphChars.Dot, 1, 1)\<close>.\<close>

definition dash :: "Externals \<Rightarrow> string" where
  "dash ext = Strings_pad ext (GlyphChars_Dash ext) 2 3"

definition dot :: "Externals \<Rightarrow> string" where
  "dot ext = Strings_pad ext (GlyphChars_Dot ext) 1 1"

text \<open>
  Lines 12-21: \<open>new OpenCommitFileCommandQuickPickItem(commit, item?)\<close>. \<open>item || {...}\<close>
  takes the given item when there is one (an object is truthy).
\<close>

definition OpenCommitFileCommandQuickPickItem ::
  "Externals \<Rightarrow> GitLogCommit \<Rightarrow> QuickPickItem option \<Rightarrow> CommandQuickPickItem" where
  "OpenCommitFileCommandQuickPickItem ext commit item =
     OpenFileCommandQuickPickItem
       (Uri_file ext (path_resolve ext (GitLogCommit.repoPath commit) (fileName commit)))
       (case item of
          Some i \<Rightarrow> i
        | None \<Rightarrow>
            \<lparr>label = ''$(file-symlink-file) Open File'',
             description = dash ext @ '' '' @ path_basename ext (fileName commit)\<rparr>)"

text \<open>
  Lines 23-41: \<open>new OpenCommitFileRevisionCommandQuickPickItem(commit, item?)\<close>. The
  non-null assertions (\<open>!\<close>) of line 29 do nothing at run time: an undefined previous sha
  or file name is passed on as it is. \<open>revisionUri\<close> and \<open>revisionDescription\<close> are the
  local variables \<open>uri\<close> and \<open>description\<close> the two branches assign.
\<close>

definition revisionUri :: "Externals \<Rightarrow> GitLogCommit \<Rightarrow> Uri" where
  "revisionUri ext commit =
     (if status commit = Some ''D'' then
        toGitContentUri_sha ext (previousSha commit) (previousFileName commit)
          (GitLogCommit.repoPath commit) None
      else toGitContentUri_commit ext commit)"

definition revisionDescription :: "Externals \<Rightarrow> GitLogCommit \<Rightarrow> string" where
  "revisionDescription ext commit =
     (if status commit = Some ''D'' then
        dash ext @ '' '' @ path_basename ext (fileName commit) @ '' in ''
          @ GlyphChars_Space ext @ ''$(git-commit) '' @ previousShortSha ext commit
          @ '' (deleted in '' @ GlyphChars_Space ext @ ''$(git-commit) ''
          @ shortSha ext commit @ '')''
      else
        dash ext @ '' '' @ path_basename ext (fileName commit) @ '' in ''
          @ GlyphChars_Space ext @ ''$(git-commit) '' @ shortSha ext commit)"

definition OpenCommitFileRevisionCommandQuickPickItem ::
  "Externals \<Rightarrow> GitLogCommit \<Rightarrow> QuickPickItem option \<Rightarrow> CommandQuickPickItem" where
  "OpenCommitFileRevisionCommandQuickPickItem ext commit item =
     OpenFileCommandQuickPickItem
       (revisionUri ext commit)
       (case item of
          Some i \<Rightarrow> i
        | None \<Rightarrow>
            \<lparr>label = ''$(file-symlink-file) Open Revision'',
             description = revisionDescription ext commit\<rparr>)"

text \<open>Line 50.\<close>

definition workingName :: "Externals \<Rightarrow> GitLogCommit \<Rightarrow> string" where
  "workingName ext commit =
     (if truthy (workingFileName commit) \<and> path_basename ext (the (workingFileName commit)) \<noteq> []
      then path_basename ext (the (workingFileName commit))
      else path_basename ext (fileName commit))"

text \<open>Lines 61-85: the first block of items, for a commit that is not a stash.\<close>

definition commitItems :: "Externals \<Rightarrow> GitLogCommit \<Rightarrow> CommandQuickPickItem option \<Rightarrow> CommandQuickPickItem list" where
  "commitItems ext commit currentCommand =
     [CommandQuickPickItem
        \<lparr>label = ''$(git-commit) Show Commit Details'',
         description = dash ext @ '' $(git-commit) '' @ shortSha ext commit\<rparr>
        ShowQuickCommitDetails
        [GitUriArg (uri ext commit) commit,
         ShowQuickCommitDetailsCommandArgs commit (GitLogCommit.sha commit) currentCommand]]
     @ (if truthy (previousSha commit) then
          [CommandQuickPickItem
             \<lparr>label = ''$(git-compare) Compare File with Previous Revision'',
              description = dash ext @ '' $(git-commit) '' @ previousShortSha ext commit @ '' ''
                @ GlyphChars_Space ext @ '' $(git-compare) '' @ GlyphChars_Space ext
                @ '' $(git-commit) '' @ shortSha ext commit\<rparr>
             DiffWithPrevious
             [UriArg (uri ext commit), DiffWithPreviousCommandArgs commit]]
        else [])"

text \<open>Lines 87-97. \<open>wn\<close> is the \<open>workingName\<close> of line 50.\<close>

definition workingItems :: "Externals \<Rightarrow> string \<Rightarrow> GitLogCommit \<Rightarrow> CommandQuickPickItem list" where
  "workingItems ext wn commit =
     (if truthy (workingFileName commit) then
        [CommandQuickPickItem
           \<lparr>label = ''$(git-compare) Compare File with Working Revision'',
            description = dash ext @ '' $(git-commit) '' @ shortSha ext commit @ '' ''
              @ GlyphChars_Space ext @ '' $(git-compare) '' @ GlyphChars_Space ext
              @ '' $(file-text) '' @ wn\<rparr>
           DiffWithWorking
           [UriArg (Uri_file ext (path_resolve ext (GitLogCommit.repoPath commit) (the (workingFileName commit)))),
            DiffWithWorkingCommandArgs commit]]
      else [])"

text \<open>Lines 99-120.\<close>

definition clipboardItems :: "Externals \<Rightarrow> GitLogCommit \<Rightarrow> Uri \<Rightarrow> CommandQuickPickItem list" where
  "clipboardItems ext commit u =
     [CommandQuickPickItem
        \<lparr>label = ''$(clippy) Copy Commit ID to Clipboard'',
         description = dash ext @ '' '' @ shortSha ext commit\<rparr>
        CopyShaToClipboard
        [UriArg u, CopyShaToClipboardCommandArgs (GitLogCommit.sha commit)],
      CommandQuickPickItem
        \<lparr>label = ''$(clippy) Copy Message to Clipboard'',
         description = dash ext @ '' '' @ message commit\<rparr>
        CopyMessageToClipboard
        [UriArg u, CopyMessageToClipboardCommandArgs (message commit) (GitLogCommit.sha commit)]]"

text \<open>Lines 122-125.\<close>

definition openItems :: "Externals \<Rightarrow> GitLogCommit \<Rightarrow> CommandQuickPickItem list" where
  "openItems ext commit =
     (if truthy (workingFileName commit) \<and> status commit \<noteq> Some ''D''
      then [OpenCommitFileCommandQuickPickItem ext commit None] else [])
     @ [OpenCommitFileRevisionCommandQuickPickItem ext commit None]"

text \<open>
  Lines 127-144. The remotes with a provider are read first. The file item needs the
  branch: \<open>branch!.name\<close> on an undefined branch is a \<open>TypeError\<close>, which ends the function.
  \<open>commit.repoPath || git.repoPath\<close> takes the service's path when the commit's is empty.
\<close>

definition remoteItems ::
  "Externals \<Rightarrow> GitService \<Rightarrow> bool \<Rightarrow> GitLogCommit \<Rightarrow> CommandQuickPickItem option
     \<Rightarrow> (Error + CommandQuickPickItem list) \<times> Event list" where
  "remoteItems ext git stash commit currentCommand =
     (let remotes = filter (\<lambda>r. provider r \<noteq> None) (getRemotes git (GitLogCommit.repoPath commit));
          revisionItem =
            (if \<not> stash then
               [OpenRemotesCommandQuickPickItem remotes
                  (RemoteResource_revision (fileName commit) commit) currentCommand]
             else [])
      in if remotes \<noteq> [] then
           (if truthy (workingFileName commit) \<and> status commit \<noteq> Some ''D'' then
              (let p = (if GitLogCommit.repoPath commit \<noteq> [] then GitLogCommit.repoPath commit
                        else GitService.repoPath git)
               in case getBranch git p of
                    None \<Rightarrow>
                      (Inl TypeError, [GetRemotes (GitLogCommit.repoPath commit), GetBranch p])
                  | Some branch \<Rightarrow>
                      (Inr (OpenRemotesCommandQuickPickItem remotes
                              (RemoteResource_file (the (workingFileName commit)) (name branch))
                              currentCommand
                            # revisionItem),
                       [GetRemotes (GitLogCommit.repoPath commit), GetBranch p]))
            else (Inr revisionItem, [GetRemotes (GitLogCommit.repoPath commit)]))
         else (Inr [], [GetRemotes (GitLogCommit.repoPath commit)]))"

text \<open>Lines 146-157.\<close>

definition fileHistoryItems ::
  "Externals \<Rightarrow> GitLogCommit \<Rightarrow> CommandQuickPickItem option \<Rightarrow> GitLog option
     \<Rightarrow> CommandQuickPickItem list" where
  "fileHistoryItems ext commit currentCommand fileLog =
     (if truthy (workingFileName commit) then
        [CommandQuickPickItem
           \<lparr>label = ''$(history) Show File History'',
            description = dash ext @ '' of '' @ path_basename ext (fileName commit)\<rparr>
           ShowQuickFileHistory
           [UriArg (Uri_file ext (path_resolve ext (GitLogCommit.repoPath commit) (the (workingFileName commit)))),
            ShowQuickFileHistoryCommandArgs fileLog currentCommand]]
      else [])"

text \<open>Lines 159-169. The arguments name no \<open>fileLog\<close>: it is undefined there.\<close>

definition commitHistoryItems ::
  "Externals \<Rightarrow> GitLogCommit \<Rightarrow> CommandQuickPickItem option \<Rightarrow> CommandQuickPickItem list" where
  "commitHistoryItems ext commit currentCommand =
     [CommandQuickPickItem
        \<lparr>label = ''$(history) Show '' @ (if truthy (workingFileName commit) then ''Previous '' else [])
           @ ''File History'',
         description = dash ext @ '' of '' @ path_basename ext (fileName commit) @ '' '' @ dot ext
           @ '' from '' @ GlyphChars_Space ext @ ''$(git-commit) '' @ shortSha ext commit\<rparr>
        ShowQuickFileHistory
        [GitUriArg (uri ext commit) commit,
         ShowQuickFileHistoryCommandArgs None currentCommand]]"

text \<open>
  Lines 61-173: the list \<open>items\<close> as it stands before the keyboard scope is opened, and
  the queries sent while building it. \<open>items.splice(0, 0, goBackCommand)\<close> inserts at
  index 0.
\<close>

definition buildItems ::
  "Externals \<Rightarrow> GitService \<Rightarrow> bool \<Rightarrow> string \<Rightarrow> GitLogCommit \<Rightarrow> Uri
     \<Rightarrow> CommandQuickPickItem option \<Rightarrow> CommandQuickPickItem option \<Rightarrow> GitLog option
     \<Rightarrow> (Error + CommandQuickPickItem list) \<times> Event list" where
  "buildItems ext git stash wn commit u goBackCommand currentCommand fileLog =
     (case remoteItems ext git stash commit currentCommand of
        (Inl e, evs) \<Rightarrow> (Inl e, evs)
      | (Inr rs, evs) \<Rightarrow>
          (let items =
                 (if \<not> stash then commitItems ext commit currentCommand else [])
                 @ workingItems ext wn commit
                 @ (if \<not> stash then clipboardItems ext commit u else [])
                 @ openItems ext commit
                 @ rs
                 @ fileHistoryItems ext commit currentCommand fileLog
                 @ (if \<not> stash then commitHistoryItems ext commit currentCommand else [])
           in (Inr (case goBackCommand of Some g \<Rightarrow> g # items | None \<Rightarrow> items), evs)))"

section \<open>Previous and next commit: the keyboard commands\<close>

text \<open>
  \<open>log.commits.get(k)\<close> returns a reference to the commit object stored under \<open>k\<close>, and
  lines 220-221 write through it. The reference is the position of the entry:
  \<open>entryIndex\<close> finds the entry of a key, and position 0 is what
  \<open>Iterables.first(log.commits.values())\<close> returns of a map that is not empty
  (\<open>undefined\<close> of an empty one).
\<close>

fun entryIndex :: "(string \<times> 'v) list \<Rightarrow> string \<Rightarrow> nat option" where
  "entryIndex [] k = None"
| "entryIndex ((k', v) # es) k =
     (if k' = k then Some 0 else map_option Suc (entryIndex es k))"

text \<open>
  Lines 225-234 and 255-264: the command built from a commit \<open>c\<close> whose link is known,
  or \<open>KeyNoopCommand\<close> when the link is undefined.
\<close>

definition previousKeyCommand ::
  "Externals \<Rightarrow> GitLogCommit \<Rightarrow> GitLog option \<Rightarrow> CommandQuickPickItem option \<Rightarrow> KeyCommand" where
  "previousKeyCommand ext c log goBackCommand =
     (case previousSha c of
        None \<Rightarrow> KeyNoopCommand
      | Some s \<Rightarrow>
          KeyCommandQuickPickItem ShowQuickCommitFileDetails
            [UriArg (previousUri ext c),
             ShowQuickCommitFileDetailsCommandArgs log s goBackCommand])"

definition nextKeyCommand ::
  "Externals \<Rightarrow> GitLogCommit \<Rightarrow> GitLog option \<Rightarrow> CommandQuickPickItem option \<Rightarrow> KeyCommand" where
  "nextKeyCommand ext c log goBackCommand =
     (case nextSha c of
        None \<Rightarrow> KeyNoopCommand
      | Some s \<Rightarrow>
          KeyCommandQuickPickItem ShowQuickCommitFileDetails
            [UriArg (nextUri ext c),
             ShowQuickCommitFileDetailsCommandArgs log s goBackCommand])"

text \<open>
  Lines 203-235, the closure \<open>previousCommand\<close>, run against the git service. The
  result is the key command and the queries sent. The log handed on in the command is
  the fresh log with the entry of \<open>c\<close> as lines 220-221 left it.
\<close>

definition previousCommand ::
  "Externals \<Rightarrow> GitService \<Rightarrow> GitLogCommit \<Rightarrow> Uri \<Rightarrow> CommandQuickPickItem option
     \<Rightarrow> GitLog option \<Rightarrow> KeyCommand \<times> Event list" where
  "previousCommand ext git commit u goBackCommand fileLog =
     (let c0 = (case fileLog of None \<Rightarrow> None | Some l \<Rightarrow> map_of (commits l) (GitLogCommit.sha commit))
      in if (case c0 of None \<Rightarrow> True | Some c \<Rightarrow> previousSha c = None) then
           (let n = maxQuickHistory git;
                q = GetLogForFile (GitLogCommit.repoPath commit) (Uri.fsPath u) (GitLogCommit.sha commit) n
            in case getLogForFile git (GitLogCommit.repoPath commit) (Uri.fsPath u) (GitLogCommit.sha commit) n of
                 None \<Rightarrow> (KeyNoopCommand, [q])
               | Some l \<Rightarrow>
                   (case (case entryIndex (commits l) (GitLogCommit.sha commit) of
                            Some i \<Rightarrow> Some i
                          | None \<Rightarrow> if isMerge ext commit \<and> commits l \<noteq> [] then Some 0 else None) of
                      None \<Rightarrow> (KeyNoopCommand, [q])
                    | Some i \<Rightarrow>
                        (let c = (snd (commits l ! i))
                                   \<lparr>nextSha := nextSha commit, nextFileName := nextFileName commit\<rparr>;
                             log = l\<lparr>commits := (commits l)[i := (fst (commits l ! i), c)]\<rparr>
                         in (previousKeyCommand ext c (Some log) goBackCommand, [q]))))
         else (previousKeyCommand ext (the c0) fileLog goBackCommand, []))"

text \<open>
  Lines 237-265, the closure \<open>nextCommand\<close>. Line 249 aliases the captured \<open>commit\<close>
  and lines 250-251 write to it, so the commit as the call leaves it is returned too.
  \<open>next.originalFileName || next.fileName\<close> takes the file name when the original one
  is undefined or empty.
\<close>

definition nextCommand ::
  "Externals \<Rightarrow> GitService \<Rightarrow> GitLogCommit \<Rightarrow> Uri \<Rightarrow> CommandQuickPickItem option
     \<Rightarrow> GitLog option \<Rightarrow> (KeyCommand \<times> GitLogCommit) \<times> Event list" where
  "nextCommand ext git commit u goBackCommand fileLog =
     (let c0 = (case fileLog of None \<Rightarrow> None | Some l \<Rightarrow> map_of (commits l) (GitLogCommit.sha commit))
      in if (case c0 of None \<Rightarrow> True | Some c \<Rightarrow> nextSha c = None) then
           (let q = FindNextCommit (GitLogCommit.repoPath commit) (Uri.fsPath u) (GitLogCommit.sha commit)
            in case findNextCommit git (GitLogCommit.repoPath commit) (Uri.fsPath u) (GitLogCommit.sha commit) of
                 None \<Rightarrow> ((KeyNoopCommand, commit), [q])
               | Some next \<Rightarrow>
                   if GitLogCommit.sha next \<noteq> GitLogCommit.sha commit then
                     (let c = commit
                                \<lparr>nextSha := Some (GitLogCommit.sha next),
                                 nextFileName :=
                                   Some (if truthy (originalFileName next) then the (originalFileName next)
                                         else fileName next)\<rparr>
                      in ((nextKeyCommand ext c None goBackCommand, c), [q]))
                   else ((KeyNoopCommand, commit), [q]))
         else ((nextKeyCommand ext (the c0) fileLog goBackCommand, commit), []))"

text \<open>
  Line 179: the file log is the complete history of the file.
\<close>

definition fullHistory :: "GitLog option \<Rightarrow> bool" where
  "fullHistory fileLog =
     (case fileLog of None \<Rightarrow> False | Some l \<Rightarrow> \<not> truncated l \<and> GitLog.sha l = None)"

text \<open>
  Lines 175-267: what the keys \<open>,\<close> and \<open>.\<close> are bound to.
\<close>

definition keyBindings ::
  "Externals \<Rightarrow> bool \<Rightarrow> GitLogCommit \<Rightarrow> Uri \<Rightarrow> CommandQuickPickItem option \<Rightarrow> GitLog option
     \<Rightarrow> KeyBinding option \<times> KeyBinding option" where
  "keyBindings ext stash commit u goBackCommand fileLog =
     (if \<not> stash then
        (if fullHistory fileLog then
           ((case previousSha commit of
               None \<Rightarrow> None
             | Some s \<Rightarrow>
                 Some (Direct (KeyCommandQuickPickItem ShowQuickCommitFileDetails
                   [UriArg (previousUri ext commit),
                    ShowQuickCommitFileDetailsCommandArgs fileLog s goBackCommand]))),
            (case nextSha commit of
               None \<Rightarrow> None
             | Some s \<Rightarrow>
                 Some (Direct (KeyCommandQuickPickItem ShowQuickCommitFileDetails
                   [UriArg (nextUri ext commit),
                    ShowQuickCommitFileDetailsCommandArgs fileLog s goBackCommand]))))
         else
           (Some (DeferredPrevious commit u goBackCommand fileLog),
            Some (DeferredNext commit u goBackCommand fileLog)))
      else (None, None))"

text \<open>
  Pressing a key: a command bound directly is taken as it is, a closure is called.
\<close>

fun resolveKey :: "Externals \<Rightarrow> GitService \<Rightarrow> KeyBinding \<Rightarrow> KeyCommand \<times> Event list" where
  "resolveKey ext git (Direct k) = (k, [])"
| "resolveKey ext git (DeferredPrevious commit u goBackCommand fileLog) =
     previousCommand ext git commit u goBackCommand fileLog"
| "resolveKey ext git (DeferredNext commit u goBackCommand fileLog) =
     (case nextCommand ext git commit u goBackCommand fileLog of ((k, c), evs) \<Rightarrow> (k, evs))"

section \<open>\<open>CommitFileDetailsQuickPick.show\<close>\<close>

text \<open>Line 277.\<close>

definition placeHolderText :: "Externals \<Rightarrow> bool \<Rightarrow> GitLogCommit \<Rightarrow> string" where
  "placeHolderText ext uncommitted commit =
     getFormattedPath ext commit @ '' '' @ dot ext @ '' ''
     @ (if uncommitted then ''Uncommitted '' @ GlyphChars_ArrowRightHollow ext @ '' '' else [])
     @ shortSha ext commit @ '' '' @ dot ext @ '' '' @ author commit @ '', '' @ fromNow ext commit
     @ '' '' @ dot ext @ '' '' @ message commit"

text \<open>
  Lines 61-286, with \<open>stash\<close>, \<open>workingName\<close> and \<open>isUncommitted\<close> as lines 48-52 computed
  them and \<open>commit\<close> as line 58 may have replaced it. The callback \<open>onDidSelectItem\<close> runs
  inside the editor while the picker is open and is not part of the trace.
\<close>

definition showPicker ::
  "Externals \<Rightarrow> GitService \<Rightarrow> bool \<Rightarrow> string \<Rightarrow> bool \<Rightarrow> GitLogCommit \<Rightarrow> Uri
     \<Rightarrow> CommandQuickPickItem option \<Rightarrow> CommandQuickPickItem option \<Rightarrow> GitLog option
     \<Rightarrow> (Error + CommandQuickPickItem option) \<times> Event list" where
  "showPicker ext git stash wn uncommitted commit u goBackCommand currentCommand fileLog =
     (case buildItems ext git stash wn commit u goBackCommand currentCommand fileLog of
        (Inl e, evs) \<Rightarrow> (Inl e, evs)
      | (Inr items, evs) \<Rightarrow>
          (let keys = keyBindings ext stash commit u goBackCommand fileLog;
               scope = \<lparr>left = map_option KeyCommandItem goBackCommand,
                        comma = fst keys, period = snd keys\<rparr>;
               options = \<lparr>matchOnDescription = True,
                          placeHolder = placeHolderText ext uncommitted commit,
                          ignoreFocusOut = getQuickPickIgnoreFocusOut ext\<rparr>
           in (Inr (showQuickPick ext items options),
               evs @ [BeginScope scope, ShowQuickPick items options, ScopeDispose])))"

text \<open>
  Lines 52-59: the commit the rest of the function works on. An uncommitted commit is
  replaced by what \<open>git.getLogCommit(undefined, commit.uri.fsPath, { previous: true })\<close>
  answers, and there is none when it answers \<open>undefined\<close>.
\<close>

definition effectiveCommit :: "Externals \<Rightarrow> GitService \<Rightarrow> GitLogCommit \<Rightarrow> GitLogCommit option" where
  "effectiveCommit ext git commit =
     (if isUncommitted ext commit
      then getLogCommit git None (Uri.fsPath (uri ext commit)) True
      else Some commit)"

text \<open>
  Lines 45-287. The result is what the promise settles to (\<open>Inr None\<close> is \<open>undefined\<close>,
  \<open>Inl\<close> a rejection) and the trace of queries and editor calls. \<open>stash\<close>, \<open>workingName\<close>
  and \<open>isUncommitted\<close> are read from the commit as it was passed in.
\<close>

definition CommitFileDetailsQuickPick_show ::
  "Externals \<Rightarrow> GitService \<Rightarrow> GitLogCommit \<Rightarrow> Uri \<Rightarrow> CommandQuickPickItem option
     \<Rightarrow> CommandQuickPickItem option \<Rightarrow> GitLog option
     \<Rightarrow> (Error + CommandQuickPickItem option) \<times> Event list" where
  "CommitFileDetailsQuickPick_show ext git commit u goBackCommand currentCommand fileLog =
     (let stash = (type commit = Stash);
          wn = workingName ext commit;
          uncommitted = isUncommitted ext commit;
          q = (if uncommitted then [GetLogCommit None (Uri.fsPath (uri ext commit)) True] else [])
      in case effectiveCommit ext git commit of
           None \<Rightarrow> (Inr None, q)
         | Some c \<Rightarrow>
             (case showPicker ext git stash wn uncommitted c u goBackCommand currentCommand fileLog of
                (r, evs) \<Rightarrow> (r, q @ evs)))"

section \<open>Reading a trace\<close>

text \<open>
  The key mappings of the scopes a trace opens, the item lists of the pickers it shows,
  and the commands a trace of the diff command dispatches.
\<close>

fun scopes :: "Event list \<Rightarrow> KeyMapping list" where
  "scopes [] = []"
| "scopes (BeginScope m # evs) = m # scopes evs"
| "scopes (e # evs) = scopes evs"

fun pickers :: "Event list \<Rightarrow> CommandQuickPickItem list list" where
  "pickers [] = []"
| "pickers (ShowQuickPick items options # evs) = items # pickers evs"
| "pickers (e # evs) = pickers evs"

fun gitQueries :: "Event list \<Rightarrow> Event list" where
  "gitQueries [] = []"
| "gitQueries (BeginScope m # evs) = gitQueries evs"
| "gitQueries (ShowQuickPick items options # evs) = gitQueries evs"
| "gitQueries (ScopeDispose # evs) = gitQueries evs"
| "gitQueries (e # evs) = e # gitQueries evs"

fun dispatched :: "Effect list \<Rightarrow> (CommandId \<times> Argument list) list" where
  "dispatched [] = []"
| "dispatched (ExecuteCommand c args # evs) = (c, args) # dispatched evs"
| "dispatched (e # evs) = dispatched evs"

fun itemCommand :: "CommandQuickPickItem \<Rightarrow> Commands option" where
  "itemCommand (CommandQuickPickItem i c args) = Some c"
| "itemCommand other = None"

fun itemArgs :: "CommandQuickPickItem \<Rightarrow> CommandArg list" where
  "itemArgs (CommandQuickPickItem i c args) = args"
| "itemArgs other = []"

fun isGitUriArg :: "CommandArg \<Rightarrow> bool" where
  "isGitUriArg (GitUriArg u c) = True"
| "isGitUriArg other = False"

fun isRevisionRemote :: "CommandQuickPickItem \<Rightarrow> bool" where
  "isRevisionRemote (OpenRemotesCommandQuickPickItem rs (RemoteResource_revision f c) cur) = True"
| "isRevisionRemote other = False"

section \<open>Sample inputs of the quick pick\<close>

text \<open>
  A file with two commits, \<open>c1\<close> then \<open>c2\<close>, its complete log, and a service and an
  environment that answer every call. The sha \<open>0000\<close> marks an uncommitted commit.
\<close>

definition first_commit :: GitLogCommit where
  "first_commit =
     \<lparr>GitLogCommit.sha = ''c1'', type = Branch, GitLogCommit.repoPath = ''/repo'', fileName = ''a.ts'',
      originalFileName = None, workingFileName = Some ''a.ts'', status = Some ''A'',
      previousSha = None, previousFileName = None, nextSha = Some ''c2'',
      nextFileName = Some ''a.ts'', author = ''ann'', message = ''add''\<rparr>"

definition last_commit :: GitLogCommit where
  "last_commit =
     \<lparr>GitLogCommit.sha = ''c2'', type = Branch, GitLogCommit.repoPath = ''/repo'', fileName = ''a.ts'',
      originalFileName = None, workingFileName = Some ''a.ts'', status = Some ''M'',
      previousSha = Some ''c1'', previousFileName = Some ''a.ts'', nextSha = None,
      nextFileName = None, author = ''ann'', message = ''fix''\<rparr>"

definition full_log :: GitLog where
  "full_log = \<lparr>commits = [(''c2'', last_commit), (''c1'', first_commit)], GitLog.sha = None,
                truncated = False\<rparr>"

definition sample_ext :: Externals where
  "sample_ext =
     \<lparr>isUncommitted = (\<lambda>c. GitLogCommit.sha c = ''0000''),
      isMerge = (\<lambda>c. False),
      shortSha = (\<lambda>c. GitLogCommit.sha c),
      previousShortSha = (\<lambda>c. case previousSha c of Some s \<Rightarrow> s | None \<Rightarrow> []),
      uri = (\<lambda>c. Uri ''file'' (GitLogCommit.repoPath c @ ''/'' @ fileName c)),
      previousUri = (\<lambda>c. Uri ''file'' (GitLogCommit.repoPath c @ ''/''
                       @ (case previousFileName c of Some f \<Rightarrow> f | None \<Rightarrow> fileName c))),
      nextUri = (\<lambda>c. Uri ''file'' (GitLogCommit.repoPath c @ ''/''
                   @ (case nextFileName c of Some f \<Rightarrow> f | None \<Rightarrow> fileName c))),
      getFormattedPath = fileName,
      fromNow = (\<lambda>c. ''now''),
      toGitContentUri_sha = (\<lambda>s f r orig.
        Uri ''gitlens-git'' (r @ ''/'' @ (case f of Some x \<Rightarrow> x | None \<Rightarrow> [])
                             @ ''@'' @ (case s of Some x \<Rightarrow> x | None \<Rightarrow> []))),
      toGitContentUri_commit = (\<lambda>c.
        Uri ''gitlens-git'' (GitLogCommit.repoPath c @ ''/'' @ fileName c @ ''@'' @ GitLogCommit.sha c)),
      Uri_file = Uri ''file'',
      path_resolve = (\<lambda>a b. a @ ''/'' @ b),
      path_basename = (\<lambda>p. p),
      Strings_pad = (\<lambda>s before after. s),
      GlyphChars_Dash = ''-'',
      GlyphChars_Dot = ''.'',
      GlyphChars_Space = '' '',
      GlyphChars_ArrowRightHollow = ''>'',
      getQuickPickIgnoreFocusOut = True,
      showQuickPick = (\<lambda>items options. None)\<rparr>"

definition sample_git :: GitService where
  "sample_git =
     \<lparr>getLogCommit = (\<lambda>r f p. Some last_commit),
      getRemotes = (\<lambda>r. []),
      getBranch = (\<lambda>r. None),
      getLogForFile = (\<lambda>r f s n. Some full_log),
      findNextCommit = (\<lambda>r f s. Some last_commit),
      maxQuickHistory = 200,
      repoPath = ''/repo''\<rparr>"

text \<open>A service that finds no last commit of a file.\<close>

definition empty_git :: GitService where
  "empty_git = sample_git\<lparr>getLogCommit := (\<lambda>r f p. None)\<rparr>"

text \<open>
  A service that knows two remotes, one of them with a provider, and the current branch.
\<close>

definition remote_git :: GitService where
  "remote_git = sample_git
     \<lparr>getRemotes := (\<lambda>r. [\<lparr>provider = None\<rparr>, \<lparr>provider = Some ''github''\<rparr>]),
      getBranch := (\<lambda>r. Some \<lparr>name = ''main''\<rparr>)\<rparr>"

definition sample_uri :: Uri where
  "sample_uri = Uri ''file'' ''/repo/a.ts''"

definition back_item :: CommandQuickPickItem where
  "back_item =
     CommandQuickPickItem \<lparr>label = ''go back'', description = ''to file history''\<rparr>
       ShowQuickFileHistory [UriArg sample_uri, ShowQuickFileHistoryCommandArgs None None]"

section \<open>Properties of \<open>DiffLineWithPreviousCommand.execute\<close>\<close>



text \<open>
  The diff stage, when both versions are read and the \<open>Diff\<close> dispatch settles: the trace
  is the two reads, \<open>Diff\<close>, \<open>RevealLine\<close>, and after them at most the handler of a
  rejected \<open>RevealLine\<close>, which dispatches nothing.
\<close>

lemma diffStage_trace:
  assumes "getVersionedFile host (GitUri.fsPath gitUri) (GitUri.repoPath gitUri) (GitUri.sha gitUri) = Inr v0"
    and "getVersionedFile host (Uri.fsPath (Host.uri host c)) (GitCommit.repoPath c) (GitCommit.sha c) = Inr v1"
    and "executeCommand host (BuiltIn Diff)
           [ArgUri (Host.Uri_file host v1), ArgUri (Host.Uri_file host v0),
            ArgTitle (Host.path_basename host (Uri.fsPath (Host.uri host c))) (GitCommit.sha c)
              (Host.path_basename host (GitUri.fsPath gitUri)) (GitUri.sha gitUri)] = Inr d"
  shows "\<exists>post. snd (diffStage host gitUri c ln) =
           [GetVersionedFile (GitUri.fsPath gitUri) (GitUri.repoPath gitUri) (GitUri.sha gitUri),
            GetVersionedFile (Uri.fsPath (Host.uri host c)) (GitCommit.repoPath c) (GitCommit.sha c),
            ExecuteCommand (BuiltIn Diff)
              [ArgUri (Host.Uri_file host v1), ArgUri (Host.Uri_file host v0),
               ArgTitle (Host.path_basename host (Uri.fsPath (Host.uri host c))) (GitCommit.sha c)
                 (Host.path_basename host (GitUri.fsPath gitUri)) (GitUri.sha gitUri)],
            ExecuteCommand (BuiltIn RevealLine) [ArgReveal ln ''center'']] @ post
         \<and> dispatched post = []"
  using assms by (simp add: diffStage_def failed_def Let_def split: sum.splits)

text \<open>
  C7, as the code has it. The diff stage is reached with a committed commit \<open>c\<close> either
  because such a commit was supplied, or because the blame resolved to one. When both
  versions of the file are read and the \<open>Diff\<close> dispatch settles, the command dispatches
  exactly two commands, after the two reads and in this order: \<open>Diff\<close> on the file of the
  commit (left) and the file of the uri (right), then \<open>RevealLine\<close> for the line, centered.
\<close>

theorem C7_diff_then_reveal:
  assumes "resolveUri editor u0 = Some u"
    and "gitUri = fromUri host u"
    and "sel = selectedLine editor line0"
    and "(commit0 = Some c \<and> \<not> isUncommittedSha host (GitCommit.sha c) \<and> ln = sel)
       \<or> (needsBlame host commit0 \<and> 0 \<le> sel - offset gitUri
          \<and> getBlameForLine host (GitUri.fsPath gitUri) (sel - offset gitUri) (GitUri.sha gitUri)
               (GitUri.repoPath gitUri) = Inr (Some blame)
          \<and> c = (if GitUri.sha gitUri = GitCommit.sha (blame_commit blame)
                  then previousRevision host (blame_commit blame) else blame_commit blame)
          \<and> \<not> Host.isUncommitted host c
          \<and> ln = (if GitUri.sha gitUri = GitCommit.sha (blame_commit blame)
                   then GitCommitLine.line (blame_line blame) + 1 + offset gitUri else sel))"
    and "getVersionedFile host (GitUri.fsPath gitUri) (GitUri.repoPath gitUri) (GitUri.sha gitUri) = Inr v0"
    and "getVersionedFile host (Uri.fsPath (Host.uri host c)) (GitCommit.repoPath c) (GitCommit.sha c) = Inr v1"
    and "diffArgs =
           [ArgUri (Host.Uri_file host v1), ArgUri (Host.Uri_file host v0),
            ArgTitle (Host.path_basename host (Uri.fsPath (Host.uri host c))) (GitCommit.sha c)
              (Host.path_basename host (GitUri.fsPath gitUri)) (GitUri.sha gitUri)]"
    and "executeCommand host (BuiltIn Diff) diffArgs = Inr d"
  shows "\<exists>pre post.
           snd (DiffLineWithPreviousCommand_execute host editor u0 commit0 line0) =
             pre @ [GetVersionedFile (GitUri.fsPath gitUri) (GitUri.repoPath gitUri) (GitUri.sha gitUri),
                    GetVersionedFile (Uri.fsPath (Host.uri host c)) (GitCommit.repoPath c) (GitCommit.sha c),
                    ExecuteCommand (BuiltIn Diff) diffArgs,
                    ExecuteCommand (BuiltIn RevealLine) [ArgReveal ln ''center'']] @ post
         \<and> dispatched pre = [] \<and> dispatched post = []"
proof -
  let ?core = "[GetVersionedFile (GitUri.fsPath gitUri) (GitUri.repoPath gitUri) (GitUri.sha gitUri),
                GetVersionedFile (Uri.fsPath (Host.uri host c)) (GitCommit.repoPath c) (GitCommit.sha c),
                ExecuteCommand (BuiltIn Diff) diffArgs,
                ExecuteCommand (BuiltIn RevealLine) [ArgReveal ln ''center'']]"
  from diffStage_trace [OF assms(5) assms(6), of d ln] assms(7) assms(8)
  obtain post where post: "snd (diffStage host gitUri c ln) = ?core @ post" "dispatched post = []"
    by auto
  from assms(4) show ?thesis
  proof
    assume a: "commit0 = Some c \<and> \<not> isUncommittedSha host (GitCommit.sha c) \<and> ln = sel"
    then have "DiffLineWithPreviousCommand_execute host editor u0 commit0 line0 = diffStage host gitUri c ln"
      using assms(1-3) by (simp add: DiffLineWithPreviousCommand_execute_def needsBlame_def Let_def)
    then have "snd (DiffLineWithPreviousCommand_execute host editor u0 commit0 line0) = [] @ ?core @ post"
      using post by simp
    then show ?thesis using post(2) by (metis dispatched.simps(1))
  next
    assume b: "needsBlame host commit0 \<and> 0 \<le> sel - offset gitUri
          \<and> getBlameForLine host (GitUri.fsPath gitUri) (sel - offset gitUri) (GitUri.sha gitUri)
               (GitUri.repoPath gitUri) = Inr (Some blame)
          \<and> c = (if GitUri.sha gitUri = GitCommit.sha (blame_commit blame)
                  then previousRevision host (blame_commit blame) else blame_commit blame)
          \<and> \<not> Host.isUncommitted host c
          \<and> ln = (if GitUri.sha gitUri = GitCommit.sha (blame_commit blame)
                   then GitCommitLine.line (blame_line blame) + 1 + offset gitUri else sel)"
    let ?q = "GetBlameForLine (GitUri.fsPath gitUri) (sel - offset gitUri) (GitUri.sha gitUri)
                (GitUri.repoPath gitUri)"
    from b have "snd (DiffLineWithPreviousCommand_execute host editor u0 commit0 line0)
                   = ?q # snd (diffStage host gitUri c ln)"
      using assms(1-3)
      by (cases "GitUri.sha gitUri = GitCommit.sha (blame_commit blame)")
         (auto simp add: DiffLineWithPreviousCommand_execute_def Let_def case_prod_beta)
    then have "snd (DiffLineWithPreviousCommand_execute host editor u0 commit0 line0) = [?q] @ ?core @ post"
      using post by simp
    moreover have "dispatched [?q] = []" by simp
    ultimately show ?thesis using post(2) by blast
  qed
qed

theorem C7_diff_then_reveal_sample:
  "\<exists>pre post.
     snd (DiffLineWithPreviousCommand_execute sample_host sample_editor None (Some sample_commit) (Some 5)) =
       pre @ [GetVersionedFile ''/repo/a.ts'' ''/repo'' (Some ''abd''),
              GetVersionedFile ''/repo/a.ts'' ''/repo'' (Some ''abc''),
              ExecuteCommand (BuiltIn Diff)
                [ArgUri (Uri ''file'' ''/tmp//repo/a.ts''), ArgUri (Uri ''file'' ''/tmp//repo/a.ts''),
                 ArgTitle ''/repo/a.ts'' (Some ''abc'') ''/repo/a.ts'' (Some ''abd'')],
              ExecuteCommand (BuiltIn RevealLine) [ArgReveal 5 ''center'']] @ post
     \<and> dispatched pre = [] \<and> dispatched post = []"
  using C7_diff_then_reveal
    [of sample_editor None "Uri ''file'' ''/repo/a.ts''" "fromUri sample_host (Uri ''file'' ''/repo/a.ts'')"
        sample_host 5 "Some 5" "Some sample_commit" sample_commit 5 undefined
        "''/tmp//repo/a.ts''" "''/tmp//repo/a.ts''" _ Undefined]
  by (simp add: resolveUri_def needsBlame_def selectedLine_def sample_host_def sample_editor_def
      sample_commit_def)

text \<open>
  C7 as stated fails where a version of the file cannot be read: the diff stage is reached
  with a supplied, committed commit, and no command is dispatched (the handler of lines
  63-66 logs and shows an error message).
\<close>

theorem C7_unreadable_version_dispatches_nothing:
  "resolveUri sample_editor None = Some (Uri ''file'' ''/repo/a.ts'')
   \<and> \<not> needsBlame failing_host (Some sample_commit)
   \<and> dispatched (snd (DiffLineWithPreviousCommand_execute failing_host sample_editor None
                        (Some sample_commit) (Some 5))) = []"
  by (simp add: DiffLineWithPreviousCommand_execute_def resolveUri_def needsBlame_def selectedLine_def
      diffStage_def failed_def failing_host_def sample_host_def sample_editor_def sample_commit_def)

text \<open>
  C8. Without a supplied committed commit: when the blame line (the selected line minus
  the offset of the git uri) is negative, the command returns \<open>undefined\<close> and does nothing
  else, so it sends no blame query and dispatches nothing; when the blame query answers
  with no result, it shows the warning message and returns what that call returns, after
  the query and nothing else.
\<close>

theorem C8_negative_blame_line_and_missing_blame:
  assumes "resolveUri editor u0 = Some u"
    and "needsBlame host commit0"
    and "gitUri = fromUri host u"
    and "blameline = selectedLine editor line0 - offset gitUri"
  shows "(blameline < 0 \<longrightarrow>
            DiffLineWithPreviousCommand_execute host editor u0 commit0 line0 = (Inr Undefined, []))
       \<and> (0 \<le> blameline \<and>
          getBlameForLine host (GitUri.fsPath gitUri) blameline (GitUri.sha gitUri) (GitUri.repoPath gitUri)
            = Inr None \<longrightarrow>
            DiffLineWithPreviousCommand_execute host editor u0 commit0 line0 =
              (showWarningMessage host ''Unable to open diff. File is probably not under source control'',
               [GetBlameForLine (GitUri.fsPath gitUri) blameline (GitUri.sha gitUri) (GitUri.repoPath gitUri),
                ShowWarningMessage ''Unable to open diff. File is probably not under source control'']))"
  using assms by (simp add: DiffLineWithPreviousCommand_execute_def Let_def)

theorem C8_negative_blame_line_and_missing_blame_sample:
  "DiffLineWithPreviousCommand_execute blameless_host sample_editor None None (Some 1) = (Inr Undefined, [])
   \<and> DiffLineWithPreviousCommand_execute blameless_host sample_editor None None None =
       (Inr Undefined,
        [GetBlameForLine ''/repo/a.ts'' 5 (Some ''abd'') ''/repo'',
         ShowWarningMessage ''Unable to open diff. File is probably not under source control''])"
  using C8_negative_blame_line_and_missing_blame
      [of sample_editor None "Uri ''file'' ''/repo/a.ts''" blameless_host None
          "fromUri blameless_host (Uri ''file'' ''/repo/a.ts'')" "-1" "Some 1"]
    C8_negative_blame_line_and_missing_blame
      [of sample_editor None "Uri ''file'' ''/repo/a.ts''" blameless_host None
          "fromUri blameless_host (Uri ''file'' ''/repo/a.ts'')" "5" None]
  by (simp add: resolveUri_def needsBlame_def selectedLine_def blameless_host_def sample_host_def
      sample_editor_def)

section \<open>Properties of \<open>CommitFileDetailsQuickPick.show\<close>\<close>

subsection \<open>The shape of the trace\<close>

text \<open>
  Building the items sends queries only. So a scope in the trace of \<open>show\<close> is the one
  line 269 opens, with the bindings of lines 175-267 for the commit the function works on,
  and a picker in the trace shows the list of lines 61-173.
\<close>

lemma scopes_append: "scopes (xs @ ys) = scopes xs @ scopes ys"
  by (induction xs rule: scopes.induct) simp_all

lemma pickers_append: "pickers (xs @ ys) = pickers xs @ pickers ys"
  by (induction xs rule: pickers.induct) simp_all

lemma remoteItems_trace:
  "scopes (snd (remoteItems ext git stash c cur)) = [] \<and> pickers (snd (remoteItems ext git stash c cur)) = []"
  by (simp add: remoteItems_def Let_def split: option.splits)

lemma buildItems_trace:
  "scopes (snd (buildItems ext git stash wn c u gb cur fl)) = []
   \<and> pickers (snd (buildItems ext git stash wn c u gb cur fl)) = []"
proof (cases "remoteItems ext git stash c cur")
  case (Pair r evs)
  then show ?thesis
    using remoteItems_trace [of ext git stash c cur]
    by (cases r) (simp_all add: buildItems_def Let_def)
qed

lemma showPicker_scopes:
  assumes "m \<in> set (scopes (snd (showPicker ext git stash wn unc c u gb cur fl)))"
  shows "m = \<lparr>left = map_option KeyCommandItem gb,
              comma = fst (keyBindings ext stash c u gb fl),
              period = snd (keyBindings ext stash c u gb fl)\<rparr>"
  using assms buildItems_trace [of ext git stash wn c u gb cur fl]
  by (auto simp add: showPicker_def Let_def scopes_append split: prod.splits sum.splits)

lemma showPicker_pickers:
  assumes "items \<in> set (pickers (snd (showPicker ext git stash wn unc c u gb cur fl)))"
  shows "fst (buildItems ext git stash wn c u gb cur fl) = Inr items"
  using assms buildItems_trace [of ext git stash wn c u gb cur fl]
  by (auto simp add: showPicker_def Let_def pickers_append split: prod.splits sum.splits)

lemma show_scopes:
  assumes "m \<in> set (scopes (snd (CommitFileDetailsQuickPick_show ext git commit u gb cur fl)))"
  shows "\<exists>c. effectiveCommit ext git commit = Some c
           \<and> m = \<lparr>left = map_option KeyCommandItem gb,
                   comma = fst (keyBindings ext (type commit = Stash) c u gb fl),
                   period = snd (keyBindings ext (type commit = Stash) c u gb fl)\<rparr>"
proof (cases "effectiveCommit ext git commit")
  case None
  then show ?thesis using assms
    by (simp add: CommitFileDetailsQuickPick_show_def Let_def split: if_splits)
next
  case (Some c)
  then have "m \<in> set (scopes (snd (showPicker ext git (type commit = Stash) (workingName ext commit)
                 (isUncommitted ext commit) c u gb cur fl)))"
    using assms
    by (auto simp add: CommitFileDetailsQuickPick_show_def Let_def scopes_append split: prod.splits if_splits)
  then show ?thesis using Some showPicker_scopes by blast
qed

lemma show_pickers:
  assumes "items \<in> set (pickers (snd (CommitFileDetailsQuickPick_show ext git commit u gb cur fl)))"
  shows "\<exists>c. effectiveCommit ext git commit = Some c
           \<and> fst (buildItems ext git (type commit = Stash) (workingName ext commit) c u gb cur fl) = Inr items"
proof (cases "effectiveCommit ext git commit")
  case None
  then show ?thesis using assms
    by (simp add: CommitFileDetailsQuickPick_show_def Let_def split: if_splits)
next
  case (Some c)
  then have "items \<in> set (pickers (snd (showPicker ext git (type commit = Stash) (workingName ext commit)
                 (isUncommitted ext commit) c u gb cur fl)))"
    using assms
    by (auto simp add: CommitFileDetailsQuickPick_show_def Let_def pickers_append split: prod.splits if_splits)
  then show ?thesis using Some showPicker_pickers by blast
qed

subsection \<open>The items\<close>

text \<open>
  C5. The item that opens a revision chooses its target by the deletion status of the
  commit: for status \<open>D\<close> the content uri is built from the previous sha and the previous
  file name of the commit (the revision before the deletion), for every other status it is
  built from the commit itself.
\<close>

theorem C5_revision_target_by_deletion_status:
  "\<exists>i. OpenCommitFileRevisionCommandQuickPickItem ext commit item =
         OpenFileCommandQuickPickItem
           (if status commit = Some ''D''
            then toGitContentUri_sha ext (previousSha commit) (previousFileName commit)
                   (GitLogCommit.repoPath commit) None
            else toGitContentUri_commit ext commit) i"
  by (simp add: OpenCommitFileRevisionCommandQuickPickItem_def revisionUri_def)

theorem C5_sample:
  "(\<exists>i. OpenCommitFileRevisionCommandQuickPickItem sample_ext (last_commit\<lparr>status := Some ''D''\<rparr>) None =
         OpenFileCommandQuickPickItem (Uri ''gitlens-git'' ''/repo/a.ts@c1'') i)
   \<and> (\<exists>i. OpenCommitFileRevisionCommandQuickPickItem sample_ext last_commit None =
         OpenFileCommandQuickPickItem (Uri ''gitlens-git'' ''/repo/a.ts@c2'') i)"
  using C5_revision_target_by_deletion_status [of sample_ext "last_commit\<lparr>status := Some ''D''\<rparr>" None]
    C5_revision_target_by_deletion_status [of sample_ext last_commit None]
  by (simp add: sample_ext_def last_commit_def)

text \<open>
  C10. When a \<open>goBackCommand\<close> is given, it is the first item of every list the picker
  shows, and the items after it are the list shown without it: whatever the type of the
  commit and its flags, it stands ahead of all other actions.
\<close>

theorem C10_goBackCommand_is_first:
  assumes "items \<in> set (pickers (snd (CommitFileDetailsQuickPick_show ext git commit u (Some g)
                                         currentCommand fileLog)))"
  shows "\<exists>rest. items = g # rest
           \<and> rest \<in> set (pickers (snd (CommitFileDetailsQuickPick_show ext git commit u None
                                          currentCommand fileLog)))"
proof -
  from show_pickers [OF assms] obtain c where
    c: "effectiveCommit ext git commit = Some c"
    and b: "fst (buildItems ext git (type commit = Stash) (workingName ext commit) c u (Some g)
                   currentCommand fileLog) = Inr items"
    by blast
  obtain r evs where r: "remoteItems ext git (type commit = Stash) c currentCommand = (r, evs)"
    by (cases "remoteItems ext git (type commit = Stash) c currentCommand")
  from b r obtain rs where rs: "r = Inr rs"
    by (cases r) (simp_all add: buildItems_def)
  from b r rs have "\<exists>rest. items = g # rest
      \<and> fst (buildItems ext git (type commit = Stash) (workingName ext commit) c u None
                      currentCommand fileLog) = Inr rest"
    by (auto simp add: buildItems_def Let_def)
  then obtain rest where
    items: "items = g # rest"
    and rest: "fst (buildItems ext git (type commit = Stash) (workingName ext commit) c u None
                      currentCommand fileLog) = Inr rest"
    by blast
  obtain evs' where evs': "buildItems ext git (type commit = Stash) (workingName ext commit) c u None
                      currentCommand fileLog = (Inr rest, evs')"
    using rest by (cases "buildItems ext git (type commit = Stash) (workingName ext commit) c u None
                      currentCommand fileLog") simp
  have "rest \<in> set (pickers (snd (showPicker ext git (type commit = Stash) (workingName ext commit)
                  (isUncommitted ext commit) c u None currentCommand fileLog)))"
    using evs' by (simp add: showPicker_def Let_def pickers_append)
  then have "rest \<in> set (pickers (snd (CommitFileDetailsQuickPick_show ext git commit u None
                                          currentCommand fileLog)))"
    using c by (simp add: CommitFileDetailsQuickPick_show_def Let_def pickers_append case_prod_beta)
  then show ?thesis using items by blast
qed

theorem C10_goBackCommand_is_first_sample:
  "pickers (snd (CommitFileDetailsQuickPick_show sample_ext sample_git (last_commit\<lparr>type := Stash\<rparr>) sample_uri
                   (Some back_item) None None)) =
     [back_item
      # workingItems sample_ext ''a.ts'' (last_commit\<lparr>type := Stash\<rparr>)
      @ openItems sample_ext (last_commit\<lparr>type := Stash\<rparr>)
      @ fileHistoryItems sample_ext (last_commit\<lparr>type := Stash\<rparr>) None None]
   \<and> pickers (snd (CommitFileDetailsQuickPick_show sample_ext sample_git (last_commit\<lparr>type := Stash\<rparr>)
                      sample_uri None None None)) =
     [workingItems sample_ext ''a.ts'' (last_commit\<lparr>type := Stash\<rparr>)
      @ openItems sample_ext (last_commit\<lparr>type := Stash\<rparr>)
      @ fileHistoryItems sample_ext (last_commit\<lparr>type := Stash\<rparr>) None None]"
  using C10_goBackCommand_is_first
    [of "back_item
      # workingItems sample_ext ''a.ts'' (last_commit\<lparr>type := Stash\<rparr>)
      @ openItems sample_ext (last_commit\<lparr>type := Stash\<rparr>)
      @ fileHistoryItems sample_ext (last_commit\<lparr>type := Stash\<rparr>) None None"
      sample_ext sample_git "last_commit\<lparr>type := Stash\<rparr>" sample_uri back_item None None]
  by (simp add: CommitFileDetailsQuickPick_show_def effectiveCommit_def showPicker_def buildItems_def
      remoteItems_def workingName_def truthy_def sample_ext_def sample_git_def last_commit_def Let_def)

text \<open>
  The item list by its parts, and the commands of the remote items.
\<close>

lemma remoteItems_stash:
  assumes "remoteItems ext git True c cur = (Inr rs, evs)"
  shows "\<forall>it \<in> set rs. itemCommand it = None \<and> \<not> isRevisionRemote it"
  using assms by (auto simp add: remoteItems_def Let_def split: if_splits option.splits)

lemma remoteItems_commit:
  assumes "remoteItems ext git False c cur = (Inr rs, evs)"
  shows "(\<forall>it \<in> set rs. itemCommand it = None)
       \<and> ((\<exists>it \<in> set rs. isRevisionRemote it)
            \<longleftrightarrow> filter (\<lambda>r. provider r \<noteq> None) (getRemotes git (GitLogCommit.repoPath c)) \<noteq> [])"
  using assms by (auto simp add: remoteItems_def Let_def split: if_splits option.splits)

lemma buildItems_split:
  assumes "fst (buildItems ext git stash wn c u gb cur fl) = Inr items"
  shows "\<exists>rs evs. remoteItems ext git stash c cur = (Inr rs, evs)
           \<and> items = (case gb of Some g \<Rightarrow> [g] | None \<Rightarrow> [])
                      @ ((if \<not> stash then commitItems ext c cur else [])
                         @ workingItems ext wn c
                         @ (if \<not> stash then clipboardItems ext c u else [])
                         @ openItems ext c
                         @ rs
                         @ fileHistoryItems ext c cur fl
                         @ (if \<not> stash then commitHistoryItems ext c cur else []))"
proof (cases "remoteItems ext git stash c cur")
  case (Pair r evs)
  then show ?thesis using assms
    by (cases r) (auto simp add: buildItems_def Let_def split: option.splits)
qed

text \<open>
  What a shown list holds and what the keys are bound to, by the type of the commit, for
  any picker and scope of the trace.
\<close>

lemma shown_items_by_commit_type:
  assumes "items \<in> set (pickers (snd (CommitFileDetailsQuickPick_show ext git commit u goBackCommand
                                         currentCommand fileLog)))"
    and "m \<in> set (scopes (snd (CommitFileDetailsQuickPick_show ext git commit u goBackCommand
                                  currentCommand fileLog)))"
  shows "\<exists>c rest. effectiveCommit ext git commit = Some c
     \<and> items = (case goBackCommand of Some g \<Rightarrow> [g] | None \<Rightarrow> []) @ rest
     \<and> (type commit = Stash \<longrightarrow>
          (\<forall>it \<in> set rest.
              itemCommand it \<noteq> Some ShowQuickCommitDetails
            \<and> itemCommand it \<noteq> Some DiffWithPrevious
            \<and> itemCommand it \<noteq> Some CopyShaToClipboard
            \<and> itemCommand it \<noteq> Some CopyMessageToClipboard
            \<and> \<not> isRevisionRemote it
            \<and> \<not> (itemCommand it = Some ShowQuickFileHistory \<and> list_ex isGitUriArg (itemArgs it)))
          \<and> comma m = None \<and> period m = None)
     \<and> (type commit \<noteq> Stash \<longrightarrow>
          (\<exists>it \<in> set rest. itemCommand it = Some ShowQuickCommitDetails)
          \<and> ((\<exists>it \<in> set rest. itemCommand it = Some DiffWithPrevious) \<longleftrightarrow> truthy (previousSha c))
          \<and> (\<exists>it \<in> set rest. itemCommand it = Some CopyShaToClipboard)
          \<and> (\<exists>it \<in> set rest. itemCommand it = Some CopyMessageToClipboard)
          \<and> ((\<exists>it \<in> set rest. isRevisionRemote it)
               \<longleftrightarrow> filter (\<lambda>r. provider r \<noteq> None) (getRemotes git (GitLogCommit.repoPath c)) \<noteq> [])
          \<and> (\<exists>it \<in> set rest. itemCommand it = Some ShowQuickFileHistory \<and> list_ex isGitUriArg (itemArgs it))
          \<and> (comma m = None \<longleftrightarrow> fullHistory fileLog \<and> previousSha c = None)
          \<and> (period m = None \<longleftrightarrow> fullHistory fileLog \<and> nextSha c = None))"
proof -
  from show_pickers [OF assms(1)] obtain c where
    c: "effectiveCommit ext git commit = Some c"
    and b: "fst (buildItems ext git (type commit = Stash) (workingName ext commit) c u goBackCommand
                   currentCommand fileLog) = Inr items"
    by blast
  from show_scopes [OF assms(2)] c have
    m: "m = \<lparr>left = map_option KeyCommandItem goBackCommand,
             comma = fst (keyBindings ext (type commit = Stash) c u goBackCommand fileLog),
             period = snd (keyBindings ext (type commit = Stash) c u goBackCommand fileLog)\<rparr>"
    by simp
  from buildItems_split [OF b] obtain rs evs where
    r: "remoteItems ext git (type commit = Stash) c currentCommand = (Inr rs, evs)"
    and items: "items = (case goBackCommand of Some g \<Rightarrow> [g] | None \<Rightarrow> [])
                      @ ((if \<not> (type commit = Stash) then commitItems ext c currentCommand else [])
                         @ workingItems ext (workingName ext commit) c
                         @ (if \<not> (type commit = Stash) then clipboardItems ext c u else [])
                         @ openItems ext c
                         @ rs
                         @ fileHistoryItems ext c currentCommand fileLog
                         @ (if \<not> (type commit = Stash) then commitHistoryItems ext c currentCommand else []))"
    by blast
  let ?rest = "(if \<not> (type commit = Stash) then commitItems ext c currentCommand else [])
                         @ workingItems ext (workingName ext commit) c
                         @ (if \<not> (type commit = Stash) then clipboardItems ext c u else [])
                         @ openItems ext c
                         @ rs
                         @ fileHistoryItems ext c currentCommand fileLog
                         @ (if \<not> (type commit = Stash) then commitHistoryItems ext c currentCommand else [])"
  have stash: "type commit = Stash \<longrightarrow>
          (\<forall>it \<in> set ?rest.
              itemCommand it \<noteq> Some ShowQuickCommitDetails
            \<and> itemCommand it \<noteq> Some DiffWithPrevious
            \<and> itemCommand it \<noteq> Some CopyShaToClipboard
            \<and> itemCommand it \<noteq> Some CopyMessageToClipboard
            \<and> \<not> isRevisionRemote it
            \<and> \<not> (itemCommand it = Some ShowQuickFileHistory \<and> list_ex isGitUriArg (itemArgs it)))
          \<and> comma m = None \<and> period m = None"
  proof
    assume s: "type commit = Stash"
    with r have "\<forall>it \<in> set rs. itemCommand it = None \<and> \<not> isRevisionRemote it"
      using remoteItems_stash by simp
    then show "(\<forall>it \<in> set ?rest.
              itemCommand it \<noteq> Some ShowQuickCommitDetails
            \<and> itemCommand it \<noteq> Some DiffWithPrevious
            \<and> itemCommand it \<noteq> Some CopyShaToClipboard
            \<and> itemCommand it \<noteq> Some CopyMessageToClipboard
            \<and> \<not> isRevisionRemote it
            \<and> \<not> (itemCommand it = Some ShowQuickFileHistory \<and> list_ex isGitUriArg (itemArgs it)))
          \<and> comma m = None \<and> period m = None"
      using s m
      by (auto simp add: workingItems_def openItems_def fileHistoryItems_def keyBindings_def
          OpenCommitFileCommandQuickPickItem_def OpenCommitFileRevisionCommandQuickPickItem_def)
  qed
  have commit: "type commit \<noteq> Stash \<longrightarrow>
          (\<exists>it \<in> set ?rest. itemCommand it = Some ShowQuickCommitDetails)
          \<and> ((\<exists>it \<in> set ?rest. itemCommand it = Some DiffWithPrevious) \<longleftrightarrow> truthy (previousSha c))
          \<and> (\<exists>it \<in> set ?rest. itemCommand it = Some CopyShaToClipboard)
          \<and> (\<exists>it \<in> set ?rest. itemCommand it = Some CopyMessageToClipboard)
          \<and> ((\<exists>it \<in> set ?rest. isRevisionRemote it)
               \<longleftrightarrow> filter (\<lambda>r. provider r \<noteq> None) (getRemotes git (GitLogCommit.repoPath c)) \<noteq> [])
          \<and> (\<exists>it \<in> set ?rest. itemCommand it = Some ShowQuickFileHistory \<and> list_ex isGitUriArg (itemArgs it))
          \<and> (comma m = None \<longleftrightarrow> fullHistory fileLog \<and> previousSha c = None)
          \<and> (period m = None \<longleftrightarrow> fullHistory fileLog \<and> nextSha c = None)"
  proof
    assume s: "type commit \<noteq> Stash"
    with r have rs: "(\<forall>it \<in> set rs. itemCommand it = None)
       \<and> ((\<exists>it \<in> set rs. isRevisionRemote it)
            \<longleftrightarrow> filter (\<lambda>r. provider r \<noteq> None) (getRemotes git (GitLogCommit.repoPath c)) \<noteq> [])"
      using remoteItems_commit by simp
    have 1: "\<exists>it \<in> set ?rest. itemCommand it = Some ShowQuickCommitDetails"
      using s by (simp add: commitItems_def)
    have 2: "(\<exists>it \<in> set ?rest. itemCommand it = Some DiffWithPrevious) \<longleftrightarrow> truthy (previousSha c)"
      using s rs
      by (auto simp add: commitItems_def workingItems_def clipboardItems_def openItems_def
          fileHistoryItems_def commitHistoryItems_def
          OpenCommitFileCommandQuickPickItem_def OpenCommitFileRevisionCommandQuickPickItem_def)
    have 3: "\<exists>it \<in> set ?rest. itemCommand it = Some CopyShaToClipboard"
      using s by (simp add: clipboardItems_def)
    have 4: "\<exists>it \<in> set ?rest. itemCommand it = Some CopyMessageToClipboard"
      using s by (simp add: clipboardItems_def)
    have 5: "(\<exists>it \<in> set ?rest. isRevisionRemote it)
               \<longleftrightarrow> filter (\<lambda>r. provider r \<noteq> None) (getRemotes git (GitLogCommit.repoPath c)) \<noteq> []"
      using s rs
      by (auto simp add: commitItems_def workingItems_def clipboardItems_def openItems_def
          fileHistoryItems_def commitHistoryItems_def
          OpenCommitFileCommandQuickPickItem_def OpenCommitFileRevisionCommandQuickPickItem_def)
    have 6: "\<exists>it \<in> set ?rest. itemCommand it = Some ShowQuickFileHistory \<and> list_ex isGitUriArg (itemArgs it)"
      using s by (simp add: commitHistoryItems_def)
    have 7: "(comma m = None \<longleftrightarrow> fullHistory fileLog \<and> previousSha c = None)
           \<and> (period m = None \<longleftrightarrow> fullHistory fileLog \<and> nextSha c = None)"
      using s m by (simp add: keyBindings_def split: option.splits)
    from 1 2 3 4 5 6 7 show "(\<exists>it \<in> set ?rest. itemCommand it = Some ShowQuickCommitDetails)
          \<and> ((\<exists>it \<in> set ?rest. itemCommand it = Some DiffWithPrevious) \<longleftrightarrow> truthy (previousSha c))
          \<and> (\<exists>it \<in> set ?rest. itemCommand it = Some CopyShaToClipboard)
          \<and> (\<exists>it \<in> set ?rest. itemCommand it = Some CopyMessageToClipboard)
          \<and> ((\<exists>it \<in> set ?rest. isRevisionRemote it)
               \<longleftrightarrow> filter (\<lambda>r. provider r \<noteq> None) (getRemotes git (GitLogCommit.repoPath c)) \<noteq> [])
          \<and> (\<exists>it \<in> set ?rest. itemCommand it = Some ShowQuickFileHistory \<and> list_ex isGitUriArg (itemArgs it))
          \<and> (comma m = None \<longleftrightarrow> fullHistory fileLog \<and> previousSha c = None)
          \<and> (period m = None \<longleftrightarrow> fullHistory fileLog \<and> nextSha c = None)"
      by blast
  qed
  show ?thesis
  proof (intro exI conjI)
    show "effectiveCommit ext git commit = Some c" by (fact c)
    show "items = (case goBackCommand of Some g \<Rightarrow> [g] | None \<Rightarrow> []) @ ?rest" by (fact items)
    show "type commit = Stash \<longrightarrow>
          (\<forall>it \<in> set ?rest.
              itemCommand it \<noteq> Some ShowQuickCommitDetails
            \<and> itemCommand it \<noteq> Some DiffWithPrevious
            \<and> itemCommand it \<noteq> Some CopyShaToClipboard
            \<and> itemCommand it \<noteq> Some CopyMessageToClipboard
            \<and> \<not> isRevisionRemote it
            \<and> \<not> (itemCommand it = Some ShowQuickFileHistory \<and> list_ex isGitUriArg (itemArgs it)))
          \<and> comma m = None \<and> period m = None" by (fact stash)
    show "type commit \<noteq> Stash \<longrightarrow>
          (\<exists>it \<in> set ?rest. itemCommand it = Some ShowQuickCommitDetails)
          \<and> ((\<exists>it \<in> set ?rest. itemCommand it = Some DiffWithPrevious) \<longleftrightarrow> truthy (previousSha c))
          \<and> (\<exists>it \<in> set ?rest. itemCommand it = Some CopyShaToClipboard)
          \<and> (\<exists>it \<in> set ?rest. itemCommand it = Some CopyMessageToClipboard)
          \<and> ((\<exists>it \<in> set ?rest. isRevisionRemote it)
               \<longleftrightarrow> filter (\<lambda>r. provider r \<noteq> None) (getRemotes git (GitLogCommit.repoPath c)) \<noteq> [])
          \<and> (\<exists>it \<in> set ?rest. itemCommand it = Some ShowQuickFileHistory \<and> list_ex isGitUriArg (itemArgs it))
          \<and> (comma m = None \<longleftrightarrow> fullHistory fileLog \<and> previousSha c = None)
          \<and> (period m = None \<longleftrightarrow> fullHistory fileLog \<and> nextSha c = None)" by (fact commit)
  qed
qed

text \<open>
  The remote items are built unless the file item needs a branch and there is none; for
  a commit that is not a stash the revision item is among them when there is a remote with
  a provider. When the items are built, the trace has one scope and one picker.
\<close>

lemma remoteItems_succeeds:
  assumes "remotes = filter (\<lambda>r. provider r \<noteq> None) (getRemotes git (GitLogCommit.repoPath c))"
    and "remotes \<noteq> [] \<and> truthy (workingFileName c) \<and> status c \<noteq> Some ''D'' \<longrightarrow>
           getBranch git (if GitLogCommit.repoPath c \<noteq> [] then GitLogCommit.repoPath c
                          else GitService.repoPath git) \<noteq> None"
  shows "\<exists>rs evs. remoteItems ext git stash c cur = (Inr rs, evs)
           \<and> (\<not> stash \<and> remotes \<noteq> [] \<longrightarrow>
                 OpenRemotesCommandQuickPickItem remotes (RemoteResource_revision (fileName c) c) cur
                   \<in> set rs)"
  using assms by (auto simp add: remoteItems_def Let_def split: option.splits)

lemma show_trace_of_items:
  assumes "effectiveCommit ext git commit = Some c"
    and "buildItems ext git (type commit = Stash) (workingName ext commit) c u gb cur fl = (Inr items, evs)"
  shows "pickers (snd (CommitFileDetailsQuickPick_show ext git commit u gb cur fl)) = [items]
       \<and> scopes (snd (CommitFileDetailsQuickPick_show ext git commit u gb cur fl)) =
           [\<lparr>left = map_option KeyCommandItem gb,
             comma = fst (keyBindings ext (type commit = Stash) c u gb fl),
             period = snd (keyBindings ext (type commit = Stash) c u gb fl)\<rparr>]"
  using assms buildItems_trace [of ext git "type commit = Stash" "workingName ext commit" c u gb cur fl]
  by (simp add: CommitFileDetailsQuickPick_show_def showPicker_def Let_def pickers_append scopes_append)

text \<open>
  C6. When the commit to work on is found and the branch is there where the file remote
  item needs it, one picker is shown and one scope is opened. The list shown is the
  \<open>goBackCommand\<close>, if any, and the actions. For a stash none of the actions is a
  commit-specific one (commit details, compare with the previous revision, copy of the
  commit id or of the message, the remote item of the revision, the file history from the
  commit, which is the history item whose uri is a \<open>GitUri\<close>), and no command is bound to
  the keys of the previous and the next commit. For any other commit these items are there,
  each under its own condition: the remote item of the revision, for the remotes with a
  provider and the commit, exactly when there is such a remote; and the keys are bound
  unless the complete history is at hand and the link is undefined.
\<close>

theorem C6_picker_by_commit_type:
  assumes "effectiveCommit ext git commit = Some c"
    and "remotes = filter (\<lambda>r. provider r \<noteq> None) (getRemotes git (GitLogCommit.repoPath c))"
    and "remotes \<noteq> [] \<and> truthy (workingFileName c) \<and> status c \<noteq> Some ''D'' \<longrightarrow>
           getBranch git (if GitLogCommit.repoPath c \<noteq> [] then GitLogCommit.repoPath c
                          else GitService.repoPath git) \<noteq> None"
  shows "\<exists>items m rest.
       pickers (snd (CommitFileDetailsQuickPick_show ext git commit u goBackCommand
                           currentCommand fileLog)) = [items]
     \<and> scopes (snd (CommitFileDetailsQuickPick_show ext git commit u goBackCommand
                           currentCommand fileLog)) = [m]
     \<and> items = (case goBackCommand of Some g \<Rightarrow> [g] | None \<Rightarrow> []) @ rest
     \<and> (type commit = Stash \<longrightarrow>
          (\<forall>it \<in> set rest.
              itemCommand it \<noteq> Some ShowQuickCommitDetails
            \<and> itemCommand it \<noteq> Some DiffWithPrevious
            \<and> itemCommand it \<noteq> Some CopyShaToClipboard
            \<and> itemCommand it \<noteq> Some CopyMessageToClipboard
            \<and> \<not> isRevisionRemote it
            \<and> \<not> (itemCommand it = Some ShowQuickFileHistory \<and> list_ex isGitUriArg (itemArgs it)))
          \<and> comma m = None \<and> period m = None)
     \<and> (type commit \<noteq> Stash \<longrightarrow>
          (\<exists>it \<in> set rest. itemCommand it = Some ShowQuickCommitDetails)
          \<and> ((\<exists>it \<in> set rest. itemCommand it = Some DiffWithPrevious) \<longleftrightarrow> truthy (previousSha c))
          \<and> (\<exists>it \<in> set rest. itemCommand it = Some CopyShaToClipboard)
          \<and> (\<exists>it \<in> set rest. itemCommand it = Some CopyMessageToClipboard)
          \<and> ((\<exists>it \<in> set rest. isRevisionRemote it)
               \<longleftrightarrow> remotes \<noteq> [])
          \<and> (\<exists>it \<in> set rest. itemCommand it = Some ShowQuickFileHistory \<and> list_ex isGitUriArg (itemArgs it))
          \<and> (comma m = None \<longleftrightarrow> fullHistory fileLog \<and> previousSha c = None)
          \<and> (period m = None \<longleftrightarrow> fullHistory fileLog \<and> nextSha c = None))
     \<and> (type commit \<noteq> Stash \<and> remotes \<noteq> [] \<longrightarrow>
          OpenRemotesCommandQuickPickItem remotes (RemoteResource_revision (fileName c) c) currentCommand
                 \<in> set rest)"
proof -
  let ?stash = "type commit = Stash"
  from remoteItems_succeeds [OF assms(2) assms(3), of ext ?stash currentCommand] obtain rs evs where
    r: "remoteItems ext git ?stash c currentCommand = (Inr rs, evs)"
    and rv: "\<not> ?stash \<and> remotes \<noteq> [] \<longrightarrow>
                 OpenRemotesCommandQuickPickItem remotes (RemoteResource_revision (fileName c) c)
                   currentCommand \<in> set rs"
    by blast
  define rest where "rest =
       (if \<not> ?stash then commitItems ext c currentCommand else [])
       @ workingItems ext (workingName ext commit) c
       @ (if \<not> ?stash then clipboardItems ext c u else [])
       @ openItems ext c
       @ rs
       @ fileHistoryItems ext c currentCommand fileLog
       @ (if \<not> ?stash then commitHistoryItems ext c currentCommand else [])"
  define items where "items = (case goBackCommand of Some g \<Rightarrow> [g] | None \<Rightarrow> []) @ rest"
  define m where "m = \<lparr>left = map_option KeyCommandItem goBackCommand,
             comma = fst (keyBindings ext ?stash c u goBackCommand fileLog),
             period = snd (keyBindings ext ?stash c u goBackCommand fileLog)\<rparr>"
  have b: "buildItems ext git ?stash (workingName ext commit) c u goBackCommand currentCommand fileLog
             = (Inr items, evs)"
    using r by (simp add: buildItems_def items_def rest_def Let_def split: option.splits)
  from show_trace_of_items [OF assms(1) b] have
    p: "pickers (snd (CommitFileDetailsQuickPick_show ext git commit u goBackCommand
                           currentCommand fileLog)) = [items]"
    and sc: "scopes (snd (CommitFileDetailsQuickPick_show ext git commit u goBackCommand
                           currentCommand fileLog)) = [m]"
    by (simp_all add: m_def)
  have pin: "items \<in> set (pickers (snd (CommitFileDetailsQuickPick_show ext git commit u goBackCommand
                           currentCommand fileLog)))"
    using p by simp
  have sin: "m \<in> set (scopes (snd (CommitFileDetailsQuickPick_show ext git commit u goBackCommand
                           currentCommand fileLog)))"
    using sc by simp
  from shown_items_by_commit_type [OF pin sin] obtain c' rest' where
    c': "effectiveCommit ext git commit = Some c'"
    and i': "items = (case goBackCommand of Some g \<Rightarrow> [g] | None \<Rightarrow> []) @ rest'"
    and st: "type commit = Stash \<longrightarrow>
          (\<forall>it \<in> set rest'.
              itemCommand it \<noteq> Some ShowQuickCommitDetails
            \<and> itemCommand it \<noteq> Some DiffWithPrevious
            \<and> itemCommand it \<noteq> Some CopyShaToClipboard
            \<and> itemCommand it \<noteq> Some CopyMessageToClipboard
            \<and> \<not> isRevisionRemote it
            \<and> \<not> (itemCommand it = Some ShowQuickFileHistory \<and> list_ex isGitUriArg (itemArgs it)))
          \<and> comma m = None \<and> period m = None"
    and nn: "type commit \<noteq> Stash \<longrightarrow>
          (\<exists>it \<in> set rest'. itemCommand it = Some ShowQuickCommitDetails)
          \<and> ((\<exists>it \<in> set rest'. itemCommand it = Some DiffWithPrevious) \<longleftrightarrow> truthy (previousSha c'))
          \<and> (\<exists>it \<in> set rest'. itemCommand it = Some CopyShaToClipboard)
          \<and> (\<exists>it \<in> set rest'. itemCommand it = Some CopyMessageToClipboard)
          \<and> ((\<exists>it \<in> set rest'. isRevisionRemote it)
               \<longleftrightarrow> filter (\<lambda>r. provider r \<noteq> None) (getRemotes git (GitLogCommit.repoPath c')) \<noteq> [])
          \<and> (\<exists>it \<in> set rest'. itemCommand it = Some ShowQuickFileHistory \<and> list_ex isGitUriArg (itemArgs it))
          \<and> (comma m = None \<longleftrightarrow> fullHistory fileLog \<and> previousSha c' = None)
          \<and> (period m = None \<longleftrightarrow> fullHistory fileLog \<and> nextSha c' = None)"
    by (elim exE conjE) (rule that)
  have ceq: "c' = c" using c' assms(1) by simp
  have req: "rest' = rest" using i' by (simp add: items_def)
  have rvin: "type commit \<noteq> Stash \<and> remotes \<noteq> [] \<longrightarrow>
          OpenRemotesCommandQuickPickItem remotes (RemoteResource_revision (fileName c) c) currentCommand
                 \<in> set rest"
    using rv by (simp add: rest_def)
  show ?thesis
  proof (intro exI conjI)
    show "pickers (snd (CommitFileDetailsQuickPick_show ext git commit u goBackCommand
                           currentCommand fileLog)) = [items]" by (fact p)
    show "scopes (snd (CommitFileDetailsQuickPick_show ext git commit u goBackCommand
                           currentCommand fileLog)) = [m]" by (fact sc)
    show "items = (case goBackCommand of Some g \<Rightarrow> [g] | None \<Rightarrow> []) @ rest" by (fact items_def)
    show "type commit = Stash \<longrightarrow>
          (\<forall>it \<in> set rest.
              itemCommand it \<noteq> Some ShowQuickCommitDetails
            \<and> itemCommand it \<noteq> Some DiffWithPrevious
            \<and> itemCommand it \<noteq> Some CopyShaToClipboard
            \<and> itemCommand it \<noteq> Some CopyMessageToClipboard
            \<and> \<not> isRevisionRemote it
            \<and> \<not> (itemCommand it = Some ShowQuickFileHistory \<and> list_ex isGitUriArg (itemArgs it)))
          \<and> comma m = None \<and> period m = None" using st unfolding req by blast
    show "type commit \<noteq> Stash \<longrightarrow>
          (\<exists>it \<in> set rest. itemCommand it = Some ShowQuickCommitDetails)
          \<and> ((\<exists>it \<in> set rest. itemCommand it = Some DiffWithPrevious) \<longleftrightarrow> truthy (previousSha c))
          \<and> (\<exists>it \<in> set rest. itemCommand it = Some CopyShaToClipboard)
          \<and> (\<exists>it \<in> set rest. itemCommand it = Some CopyMessageToClipboard)
          \<and> ((\<exists>it \<in> set rest. isRevisionRemote it)
               \<longleftrightarrow> remotes \<noteq> [])
          \<and> (\<exists>it \<in> set rest. itemCommand it = Some ShowQuickFileHistory \<and> list_ex isGitUriArg (itemArgs it))
          \<and> (comma m = None \<longleftrightarrow> fullHistory fileLog \<and> previousSha c = None)
          \<and> (period m = None \<longleftrightarrow> fullHistory fileLog \<and> nextSha c = None)" using nn unfolding req ceq assms(2) by blast
    show "type commit \<noteq> Stash \<and> remotes \<noteq> [] \<longrightarrow>
          OpenRemotesCommandQuickPickItem remotes (RemoteResource_revision (fileName c) c) currentCommand
                 \<in> set rest" by (fact rvin)
  qed
qed

theorem C6_picker_by_commit_type_sample:
  "effectiveCommit sample_ext remote_git (last_commit\<lparr>type := Stash\<rparr>) = Some (last_commit\<lparr>type := Stash\<rparr>)
   \<and> effectiveCommit sample_ext remote_git last_commit = Some last_commit
   \<and> filter (\<lambda>r. provider r \<noteq> None) (getRemotes remote_git ''/repo'') = [\<lparr>provider = Some ''github''\<rparr>]
   \<and> getBranch remote_git ''/repo'' = Some \<lparr>name = ''main''\<rparr>
   \<and> map (map itemCommand)
        (pickers (snd (CommitFileDetailsQuickPick_show sample_ext remote_git (last_commit\<lparr>type := Stash\<rparr>)
                         sample_uri None None None)))
        = [[Some DiffWithWorking, None, None, None, Some ShowQuickFileHistory]]
   \<and> map (filter isRevisionRemote)
        (pickers (snd (CommitFileDetailsQuickPick_show sample_ext remote_git (last_commit\<lparr>type := Stash\<rparr>)
                         sample_uri None None None)))
        = [[]]
   \<and> scopes (snd (CommitFileDetailsQuickPick_show sample_ext remote_git (last_commit\<lparr>type := Stash\<rparr>)
                     sample_uri None None None))
        = [\<lparr>left = None, comma = None, period = None\<rparr>]
   \<and> map (map itemCommand)
        (pickers (snd (CommitFileDetailsQuickPick_show sample_ext remote_git last_commit
                         sample_uri None None None)))
        = [[Some ShowQuickCommitDetails, Some DiffWithPrevious, Some DiffWithWorking,
            Some CopyShaToClipboard, Some CopyMessageToClipboard, None, None, None, None,
            Some ShowQuickFileHistory, Some ShowQuickFileHistory]]
   \<and> map (filter isRevisionRemote)
        (pickers (snd (CommitFileDetailsQuickPick_show sample_ext remote_git last_commit
                         sample_uri None None None)))
        = [[OpenRemotesCommandQuickPickItem [\<lparr>provider = Some ''github''\<rparr>]
              (RemoteResource_revision ''a.ts'' last_commit) None]]
   \<and> scopes (snd (CommitFileDetailsQuickPick_show sample_ext remote_git last_commit
                     sample_uri None None None))
        = [\<lparr>left = None, comma = Some (DeferredPrevious last_commit sample_uri None None),
            period = Some (DeferredNext last_commit sample_uri None None)\<rparr>]"
proof -
  have found: "effectiveCommit sample_ext remote_git last_commit = Some last_commit"
    by (simp add: effectiveCommit_def sample_ext_def last_commit_def)
  have remotes: "[\<lparr>provider = Some ''github''\<rparr>] =
      filter (\<lambda>r. provider r \<noteq> None) (getRemotes remote_git (GitLogCommit.repoPath last_commit))"
    by (simp add: remote_git_def)
  have branch: "[\<lparr>provider = Some ''github''\<rparr>] \<noteq> [] \<and> truthy (workingFileName last_commit)
      \<and> status last_commit \<noteq> Some ''D'' \<longrightarrow>
      getBranch remote_git (if GitLogCommit.repoPath last_commit \<noteq> [] then GitLogCommit.repoPath last_commit
                            else GitService.repoPath remote_git) \<noteq> None"
    by (simp add: remote_git_def)
  note shown = C6_picker_by_commit_type
      [OF found remotes branch, where u = sample_uri and goBackCommand = None
         and currentCommand = None and fileLog = None]
  have ev: "effectiveCommit sample_ext remote_git (last_commit\<lparr>type := Stash\<rparr>) = Some (last_commit\<lparr>type := Stash\<rparr>)
   \<and> effectiveCommit sample_ext remote_git last_commit = Some last_commit
   \<and> filter (\<lambda>r. provider r \<noteq> None) (getRemotes remote_git ''/repo'') = [\<lparr>provider = Some ''github''\<rparr>]
   \<and> getBranch remote_git ''/repo'' = Some \<lparr>name = ''main''\<rparr>
   \<and> map (map itemCommand)
        (pickers (snd (CommitFileDetailsQuickPick_show sample_ext remote_git (last_commit\<lparr>type := Stash\<rparr>)
                         sample_uri None None None)))
        = [[Some DiffWithWorking, None, None, None, Some ShowQuickFileHistory]]
   \<and> map (filter isRevisionRemote)
        (pickers (snd (CommitFileDetailsQuickPick_show sample_ext remote_git (last_commit\<lparr>type := Stash\<rparr>)
                         sample_uri None None None)))
        = [[]]
   \<and> scopes (snd (CommitFileDetailsQuickPick_show sample_ext remote_git (last_commit\<lparr>type := Stash\<rparr>)
                     sample_uri None None None))
        = [\<lparr>left = None, comma = None, period = None\<rparr>]
   \<and> map (map itemCommand)
        (pickers (snd (CommitFileDetailsQuickPick_show sample_ext remote_git last_commit
                         sample_uri None None None)))
        = [[Some ShowQuickCommitDetails, Some DiffWithPrevious, Some DiffWithWorking,
            Some CopyShaToClipboard, Some CopyMessageToClipboard, None, None, None, None,
            Some ShowQuickFileHistory, Some ShowQuickFileHistory]]
   \<and> map (filter isRevisionRemote)
        (pickers (snd (CommitFileDetailsQuickPick_show sample_ext remote_git last_commit
                         sample_uri None None None)))
        = [[OpenRemotesCommandQuickPickItem [\<lparr>provider = Some ''github''\<rparr>]
              (RemoteResource_revision ''a.ts'' last_commit) None]]
   \<and> scopes (snd (CommitFileDetailsQuickPick_show sample_ext remote_git last_commit
                     sample_uri None None None))
        = [\<lparr>left = None, comma = Some (DeferredPrevious last_commit sample_uri None None),
            period = Some (DeferredNext last_commit sample_uri None None)\<rparr>]"
    by (simp add: CommitFileDetailsQuickPick_show_def effectiveCommit_def showPicker_def buildItems_def
      remoteItems_def workingName_def truthy_def keyBindings_def fullHistory_def
      commitItems_def workingItems_def clipboardItems_def openItems_def fileHistoryItems_def
      commitHistoryItems_def OpenCommitFileCommandQuickPickItem_def
      OpenCommitFileRevisionCommandQuickPickItem_def
      sample_ext_def sample_git_def remote_git_def last_commit_def Let_def)
  show ?thesis by (insert shown, rule ev)
qed

subsection \<open>The commit the picker is built for\<close>

text \<open>
  C9. For an uncommitted commit the function first asks the git service for the last
  commit of the file (\<open>getLogCommit\<close> with no repository path and the option \<open>previous\<close>).
  When there is none it returns \<open>undefined\<close> and has done nothing but that query: no list
  is built and no picker is shown. When there is one, all that follows is done with it in
  place of the commit passed in.
\<close>

theorem C9_uncommitted_commit_is_replaced:
  assumes "isUncommitted ext commit"
    and "q = GetLogCommit None (Uri.fsPath (uri ext commit)) True"
  shows "(getLogCommit git None (Uri.fsPath (uri ext commit)) True = None \<longrightarrow>
            CommitFileDetailsQuickPick_show ext git commit u goBackCommand currentCommand fileLog
              = (Inr None, [q]))
       \<and> (\<forall>c. getLogCommit git None (Uri.fsPath (uri ext commit)) True = Some c \<longrightarrow>
            CommitFileDetailsQuickPick_show ext git commit u goBackCommand currentCommand fileLog
              = (fst (showPicker ext git (type commit = Stash) (workingName ext commit) True c u
                        goBackCommand currentCommand fileLog),
                 q # snd (showPicker ext git (type commit = Stash) (workingName ext commit) True c u
                            goBackCommand currentCommand fileLog)))"
  using assms
  by (simp add: CommitFileDetailsQuickPick_show_def effectiveCommit_def Let_def case_prod_beta)

theorem C9_sample:
  "isUncommitted sample_ext (last_commit\<lparr>GitLogCommit.sha := ''0000''\<rparr>)
   \<and> CommitFileDetailsQuickPick_show sample_ext empty_git (last_commit\<lparr>GitLogCommit.sha := ''0000''\<rparr>)
        sample_uri None None None = (Inr None, [GetLogCommit None ''/repo/a.ts'' True])
   \<and> pickers (snd (CommitFileDetailsQuickPick_show sample_ext empty_git
                      (last_commit\<lparr>GitLogCommit.sha := ''0000''\<rparr>) sample_uri None None None)) = []"
  using C9_uncommitted_commit_is_replaced
    [of sample_ext "last_commit\<lparr>GitLogCommit.sha := ''0000''\<rparr>"
        "GetLogCommit None ''/repo/a.ts'' True" empty_git sample_uri None None None]
  by (simp add: sample_ext_def empty_git_def sample_git_def last_commit_def)

subsection \<open>The keys of the previous and the next commit\<close>

text \<open>
  C3. For a commit that is not a stash and a file log that is the complete history
  (defined, not truncated, not scoped to a sha), the commands of both keys are built from
  the links the commit carries: each is the command for the linked sha, with the file log
  handed on, and is absent exactly when the link is undefined. They are commands, not
  closures, so pressing the key sends no query.
\<close>

theorem C3_full_history_links:
  assumes "type commit \<noteq> Stash"
    and "fullHistory fileLog"
    and "m \<in> set (scopes (snd (CommitFileDetailsQuickPick_show ext git commit u goBackCommand currentCommand fileLog)))"
  shows "\<exists>c. effectiveCommit ext git commit = Some c
     \<and> comma m = map_option
          (\<lambda>s. Direct (KeyCommandQuickPickItem ShowQuickCommitFileDetails
                  [UriArg (previousUri ext c),
                   ShowQuickCommitFileDetailsCommandArgs fileLog s goBackCommand]))
          (previousSha c)
     \<and> period m = map_option
          (\<lambda>s. Direct (KeyCommandQuickPickItem ShowQuickCommitFileDetails
                  [UriArg (nextUri ext c),
                   ShowQuickCommitFileDetailsCommandArgs fileLog s goBackCommand]))
          (nextSha c)
     \<and> (comma m = None \<longleftrightarrow> previousSha c = None)
     \<and> (period m = None \<longleftrightarrow> nextSha c = None)
     \<and> (\<forall>b. comma m = Some b \<or> period m = Some b \<longrightarrow> snd (resolveKey ext git' b) = [])"
proof -
  from show_scopes [OF assms(3)] obtain c where
    c: "effectiveCommit ext git commit = Some c"
    and m: "m = \<lparr>left = map_option KeyCommandItem goBackCommand,
                  comma = fst (keyBindings ext (type commit = Stash) c u goBackCommand fileLog),
                  period = snd (keyBindings ext (type commit = Stash) c u goBackCommand fileLog)\<rparr>"
    by blast
  have "comma m = map_option
          (\<lambda>s. Direct (KeyCommandQuickPickItem ShowQuickCommitFileDetails
                  [UriArg (previousUri ext c),
                   ShowQuickCommitFileDetailsCommandArgs fileLog s goBackCommand]))
          (previousSha c)"
    using assms(1,2) m by (simp add: keyBindings_def split: option.splits)
  moreover have "period m = map_option
          (\<lambda>s. Direct (KeyCommandQuickPickItem ShowQuickCommitFileDetails
                  [UriArg (nextUri ext c),
                   ShowQuickCommitFileDetailsCommandArgs fileLog s goBackCommand]))
          (nextSha c)"
    using assms(1,2) m by (simp add: keyBindings_def split: option.splits)
  ultimately show ?thesis using c by auto
qed

theorem C3_sample:
  "scopes (snd (CommitFileDetailsQuickPick_show sample_ext sample_git last_commit sample_uri None None
                  (Some full_log))) =
     [\<lparr>left = None,
       comma = Some (Direct (KeyCommandQuickPickItem ShowQuickCommitFileDetails
                 [UriArg (Uri ''file'' ''/repo/a.ts''),
                  ShowQuickCommitFileDetailsCommandArgs (Some full_log) ''c1'' None])),
       period = None\<rparr>]"
  using C3_full_history_links
    [of last_commit "Some full_log"
        "\<lparr>left = None,
          comma = Some (Direct (KeyCommandQuickPickItem ShowQuickCommitFileDetails
                 [UriArg (Uri ''file'' ''/repo/a.ts''),
                  ShowQuickCommitFileDetailsCommandArgs (Some full_log) ''c1'' None])),
          period = None\<rparr>"
        sample_ext sample_git sample_uri None None sample_git]
  by (simp add: CommitFileDetailsQuickPick_show_def effectiveCommit_def showPicker_def buildItems_def
      remoteItems_def keyBindings_def fullHistory_def sample_ext_def sample_git_def last_commit_def
      full_log_def Let_def)

text \<open>
  \<open>entryIndex\<close> finds the entry that \<open>map_of\<close> reads.
\<close>

lemma entryIndex_None: "entryIndex es k = None \<longleftrightarrow> map_of es k = None"
  by (induction es k rule: entryIndex.induct) auto

lemma entryIndex_Some:
  "entryIndex es k = Some i \<Longrightarrow> i < length es \<and> fst (es ! i) = k \<and> map_of es k = Some (snd (es ! i))"
  by (induction es k arbitrary: i rule: entryIndex.induct) (auto split: if_splits)

text \<open>
  The closure \<open>previousCommand\<close> when the link it finds in the file log is stale.
\<close>

lemma previousCommand_stale:
  assumes "case fileLog of None \<Rightarrow> True
           | Some l \<Rightarrow> (case map_of (commits l) (GitLogCommit.sha c) of
                          None \<Rightarrow> True | Some d \<Rightarrow> previousSha d = None)"
    and "q = GetLogForFile (GitLogCommit.repoPath c) (Uri.fsPath u) (GitLogCommit.sha c) (maxQuickHistory git)"
  shows "\<exists>k. previousCommand ext git c u gb fileLog = (k, [q])
     \<and> (case getLogForFile git (GitLogCommit.repoPath c) (Uri.fsPath u) (GitLogCommit.sha c)
               (maxQuickHistory git) of
          None \<Rightarrow> k = KeyNoopCommand
        | Some l \<Rightarrow>
            (case (case map_of (commits l) (GitLogCommit.sha c) of
                     Some d \<Rightarrow> Some d
                   | None \<Rightarrow> if isMerge ext c
                              then (case commits l of [] \<Rightarrow> None | e # es \<Rightarrow> Some (snd e))
                              else None) of
               None \<Rightarrow> k = KeyNoopCommand
             | Some d \<Rightarrow>
                 (case previousSha d of
                    None \<Rightarrow> k = KeyNoopCommand
                  | Some s \<Rightarrow>
                      (\<exists>i < length (commits l).
                         snd (commits l ! i) = d
                       \<and> k = KeyCommandQuickPickItem ShowQuickCommitFileDetails
                             [UriArg (previousUri ext
                                (d\<lparr>nextSha := nextSha c, nextFileName := nextFileName c\<rparr>)),
                              ShowQuickCommitFileDetailsCommandArgs
                                (Some (l\<lparr>commits := (commits l)
                                   [i := (fst (commits l ! i),
                                          d\<lparr>nextSha := nextSha c, nextFileName := nextFileName c\<rparr>)]\<rparr>))
                                s gb]))))"
proof -
  let ?n = "maxQuickHistory git"
  have stale: "(case (case fileLog of None \<Rightarrow> None | Some l \<Rightarrow> map_of (commits l) (GitLogCommit.sha c)) of
                  None \<Rightarrow> True | Some d \<Rightarrow> previousSha d = None)"
    using assms(1) by (simp split: option.splits)
  show ?thesis
  proof (cases "getLogForFile git (GitLogCommit.repoPath c) (Uri.fsPath u) (GitLogCommit.sha c) ?n")
    case None
    then show ?thesis using stale assms(2) by (simp add: previousCommand_def Let_def)
  next
    case (Some l)
    show ?thesis
    proof (cases "entryIndex (commits l) (GitLogCommit.sha c)")
      case ei: None
      then have mo: "map_of (commits l) (GitLogCommit.sha c) = None" by (simp add: entryIndex_None)
      show ?thesis
      proof (cases "isMerge ext c \<and> commits l \<noteq> []")
        case True
        then obtain e es where es: "commits l = e # es" by (cases "commits l") auto
        show ?thesis using stale assms(2) Some ei mo True es
          by (cases "previousSha (snd e)")
             (auto simp add: previousCommand_def previousKeyCommand_def Let_def)
      next
        case False
        then show ?thesis using stale assms(2) Some ei mo
          by (cases "commits l") (auto simp add: previousCommand_def Let_def)
      qed
    next
      case ei: (Some i)
      from entryIndex_Some [OF ei] have i: "i < length (commits l)"
        and mo: "map_of (commits l) (GitLogCommit.sha c) = Some (snd (commits l ! i))" by simp_all
      show ?thesis using stale assms(2) Some ei mo i
        by (cases "previousSha (snd (commits l ! i))")
           (auto simp add: previousCommand_def previousKeyCommand_def Let_def)
    qed
  qed
qed

text \<open>
  C1, as the code has it. For a commit that is not a stash, when the file log is not the
  complete history, the key of the previous commit is bound to a closure. When the link is
  stale (there is no file log, the commit is not in it, or its entry has no previous sha),
  the closure asks for the log of the file from the commit's sha, bounded by
  \<open>maxQuickHistory\<close>, and that is its only query. It takes the commit from the fresh log
  (for a merge commit that is not in it, the first commit of the log), and returns the
  command for the previous sha of that commit, with the fresh log handed on. It returns
  \<open>KeyNoopCommand\<close> when the query answers nothing, when no commit is found in the fresh
  log, or when the commit found has no previous sha.
\<close>

theorem C1_stale_previous_link_requeries_log:
  assumes "type commit \<noteq> Stash"
    and "\<not> fullHistory fileLog"
    and "m \<in> set (scopes (snd (CommitFileDetailsQuickPick_show ext git commit u goBackCommand
                                  currentCommand fileLog)))"
  shows "\<exists>c b. effectiveCommit ext git commit = Some c \<and> comma m = Some b
     \<and> ((case fileLog of None \<Rightarrow> True
          | Some l \<Rightarrow> (case map_of (commits l) (GitLogCommit.sha c) of
                         None \<Rightarrow> True | Some d \<Rightarrow> previousSha d = None))
        \<longrightarrow> (\<exists>k. resolveKey ext git' b =
                    (k, [GetLogForFile (GitLogCommit.repoPath c) (Uri.fsPath u) (GitLogCommit.sha c)
                           (maxQuickHistory git')])
              \<and> (case getLogForFile git' (GitLogCommit.repoPath c) (Uri.fsPath u) (GitLogCommit.sha c)
                        (maxQuickHistory git') of
                   None \<Rightarrow> k = KeyNoopCommand
                 | Some l \<Rightarrow>
                     (case (case map_of (commits l) (GitLogCommit.sha c) of
                              Some d \<Rightarrow> Some d
                            | None \<Rightarrow> if isMerge ext c
                                       then (case commits l of [] \<Rightarrow> None | e # es \<Rightarrow> Some (snd e))
                                       else None) of
                        None \<Rightarrow> k = KeyNoopCommand
                      | Some d \<Rightarrow>
                          (case previousSha d of
                             None \<Rightarrow> k = KeyNoopCommand
                           | Some s \<Rightarrow>
                               (\<exists>i < length (commits l).
                                  snd (commits l ! i) = d
                                \<and> k = KeyCommandQuickPickItem ShowQuickCommitFileDetails
                                      [UriArg (previousUri ext
                                         (d\<lparr>nextSha := nextSha c, nextFileName := nextFileName c\<rparr>)),
                                       ShowQuickCommitFileDetailsCommandArgs
                                         (Some (l\<lparr>commits := (commits l)
                                            [i := (fst (commits l ! i),
                                                   d\<lparr>nextSha := nextSha c,
                                                      nextFileName := nextFileName c\<rparr>)]\<rparr>))
                                         s goBackCommand]))))))"
proof -
  from show_scopes [OF assms(3)] obtain c where
    c: "effectiveCommit ext git commit = Some c"
    and m: "m = \<lparr>left = map_option KeyCommandItem goBackCommand,
                  comma = fst (keyBindings ext (type commit = Stash) c u goBackCommand fileLog),
                  period = snd (keyBindings ext (type commit = Stash) c u goBackCommand fileLog)\<rparr>"
    by blast
  have b: "comma m = Some (DeferredPrevious c u goBackCommand fileLog)"
    using assms(1,2) m by (simp add: keyBindings_def)
  have r: "resolveKey ext git' (DeferredPrevious c u goBackCommand fileLog)
             = previousCommand ext git' c u goBackCommand fileLog"
    by simp
  show ?thesis
    using c b previousCommand_stale [where fileLog=fileLog and c=c and u=u and git=git' and ext=ext
        and gb=goBackCommand, OF _ refl]
    unfolding r [symmetric] by blast
qed

theorem C1_stale_previous_link_sample:
  "type last_commit \<noteq> Stash \<and> \<not> fullHistory None
   \<and> scopes (snd (CommitFileDetailsQuickPick_show sample_ext sample_git last_commit sample_uri
                     None None None)) =
       [\<lparr>left = None, comma = Some (DeferredPrevious last_commit sample_uri None None),
         period = Some (DeferredNext last_commit sample_uri None None)\<rparr>]
   \<and> resolveKey sample_ext sample_git (DeferredPrevious last_commit sample_uri None None) =
       (KeyCommandQuickPickItem ShowQuickCommitFileDetails
          [UriArg (Uri ''file'' ''/repo/a.ts''),
           ShowQuickCommitFileDetailsCommandArgs (Some full_log) ''c1'' None],
        [GetLogForFile ''/repo'' ''/repo/a.ts'' ''c2'' 200])"
  using C1_stale_previous_link_requeries_log
    [of last_commit None
        "\<lparr>left = None, comma = Some (DeferredPrevious last_commit sample_uri None None),
          period = Some (DeferredNext last_commit sample_uri None None)\<rparr>"
        sample_ext sample_git sample_uri None None sample_git]
  by (simp add: CommitFileDetailsQuickPick_show_def effectiveCommit_def showPicker_def buildItems_def
      remoteItems_def keyBindings_def fullHistory_def previousCommand_def previousKeyCommand_def
      sample_ext_def sample_git_def sample_uri_def first_commit_def
      last_commit_def full_log_def Let_def)

text \<open>
  C1 as stated fails where the file log is the complete history: the first commit of the
  file is in the log and has no previous sha, so its link is stale in the sense of the
  claim, yet no command is bound to the key and no log is asked for.
\<close>

theorem C1_full_history_first_commit_has_no_previous_command:
  "type first_commit \<noteq> Stash
   \<and> map_of (commits full_log) (GitLogCommit.sha first_commit) = Some first_commit
   \<and> previousSha first_commit = None
   \<and> scopes (snd (CommitFileDetailsQuickPick_show sample_ext sample_git first_commit sample_uri
                     None None (Some full_log))) =
       [\<lparr>left = None, comma = None,
         period = Some (Direct (KeyCommandQuickPickItem ShowQuickCommitFileDetails
                    [UriArg (Uri ''file'' ''/repo/a.ts''),
                     ShowQuickCommitFileDetailsCommandArgs (Some full_log) ''c2'' None]))\<rparr>]
   \<and> gitQueries (snd (CommitFileDetailsQuickPick_show sample_ext sample_git first_commit sample_uri
                         None None (Some full_log))) = [GetRemotes ''/repo'']"
  by (simp add: CommitFileDetailsQuickPick_show_def effectiveCommit_def showPicker_def buildItems_def
      remoteItems_def keyBindings_def fullHistory_def sample_ext_def sample_git_def first_commit_def
      last_commit_def full_log_def Let_def)

text \<open>
  The closure \<open>nextCommand\<close> when the link it finds in the file log is stale.
\<close>

lemma nextCommand_stale:
  assumes "case fileLog of None \<Rightarrow> True
           | Some l \<Rightarrow> (case map_of (commits l) (GitLogCommit.sha c) of
                          None \<Rightarrow> True | Some d \<Rightarrow> nextSha d = None)"
    and "q = FindNextCommit (GitLogCommit.repoPath c) (Uri.fsPath u) (GitLogCommit.sha c)"
  shows "\<exists>k c'. nextCommand ext git c u gb fileLog = ((k, c'), [q])
     \<and> (case findNextCommit git (GitLogCommit.repoPath c) (Uri.fsPath u) (GitLogCommit.sha c) of
          None \<Rightarrow> k = KeyNoopCommand \<and> c' = c
        | Some n \<Rightarrow>
            if GitLogCommit.sha n \<noteq> GitLogCommit.sha c then
              c' = c\<lparr>nextSha := Some (GitLogCommit.sha n),
                      nextFileName := Some (if truthy (originalFileName n) then the (originalFileName n)
                                            else fileName n)\<rparr>
              \<and> k = KeyCommandQuickPickItem ShowQuickCommitFileDetails
                    [UriArg (nextUri ext c'),
                     ShowQuickCommitFileDetailsCommandArgs None (GitLogCommit.sha n) gb]
            else k = KeyNoopCommand \<and> c' = c)"
proof -
  have stale: "(case (case fileLog of None \<Rightarrow> None | Some l \<Rightarrow> map_of (commits l) (GitLogCommit.sha c)) of
                  None \<Rightarrow> True | Some d \<Rightarrow> nextSha d = None)"
    using assms(1) by (simp split: option.splits)
  show ?thesis
  proof (cases "findNextCommit git (GitLogCommit.repoPath c) (Uri.fsPath u) (GitLogCommit.sha c)")
    case None
    then show ?thesis using stale assms(2) by (simp add: nextCommand_def Let_def)
  next
    case (Some n)
    then show ?thesis using stale assms(2)
      by (simp add: nextCommand_def nextKeyCommand_def Let_def)
  qed
qed

text \<open>
  C2, as the code has it. For a commit that is not a stash, when the file log is not the
  complete history, the key of the next commit is bound to a closure. When the link is
  stale (there is no file log, the commit is not in it, or its entry has no next sha), the
  closure asks the git service for the next commit, and that is its only query. It returns
  a command exactly when the answer is a commit with another sha, and then the command for
  that sha; otherwise it returns \<open>KeyNoopCommand\<close>.
\<close>

theorem C2_stale_next_link_requeries_git:
  assumes "type commit \<noteq> Stash"
    and "\<not> fullHistory fileLog"
    and "m \<in> set (scopes (snd (CommitFileDetailsQuickPick_show ext git commit u goBackCommand
                                  currentCommand fileLog)))"
  shows "\<exists>c b. effectiveCommit ext git commit = Some c \<and> period m = Some b
     \<and> ((case fileLog of None \<Rightarrow> True
          | Some l \<Rightarrow> (case map_of (commits l) (GitLogCommit.sha c) of
                         None \<Rightarrow> True | Some d \<Rightarrow> nextSha d = None))
        \<longrightarrow> (\<exists>k. resolveKey ext git' b =
                    (k, [FindNextCommit (GitLogCommit.repoPath c) (Uri.fsPath u) (GitLogCommit.sha c)])
              \<and> (k \<noteq> KeyNoopCommand \<longleftrightarrow>
                   (\<exists>n. findNextCommit git' (GitLogCommit.repoPath c) (Uri.fsPath u) (GitLogCommit.sha c)
                           = Some n \<and> GitLogCommit.sha n \<noteq> GitLogCommit.sha c))
              \<and> (\<forall>n. findNextCommit git' (GitLogCommit.repoPath c) (Uri.fsPath u) (GitLogCommit.sha c)
                           = Some n \<and> GitLogCommit.sha n \<noteq> GitLogCommit.sha c \<longrightarrow>
                   k = KeyCommandQuickPickItem ShowQuickCommitFileDetails
                         [UriArg (nextUri ext
                            (c\<lparr>nextSha := Some (GitLogCommit.sha n),
                               nextFileName := Some (if truthy (originalFileName n)
                                                     then the (originalFileName n) else fileName n)\<rparr>)),
                          ShowQuickCommitFileDetailsCommandArgs None (GitLogCommit.sha n) goBackCommand])))"
proof -
  from show_scopes [OF assms(3)] obtain c where
    c: "effectiveCommit ext git commit = Some c"
    and m: "m = \<lparr>left = map_option KeyCommandItem goBackCommand,
                  comma = fst (keyBindings ext (type commit = Stash) c u goBackCommand fileLog),
                  period = snd (keyBindings ext (type commit = Stash) c u goBackCommand fileLog)\<rparr>"
    by blast
  have b: "period m = Some (DeferredNext c u goBackCommand fileLog)"
    using assms(1,2) m by (simp add: keyBindings_def)
  let ?stale = "case fileLog of None \<Rightarrow> True
          | Some l \<Rightarrow> (case map_of (commits l) (GitLogCommit.sha c) of
                         None \<Rightarrow> True | Some d \<Rightarrow> nextSha d = None)"
  let ?q = "FindNextCommit (GitLogCommit.repoPath c) (Uri.fsPath u) (GitLogCommit.sha c)"
  have "?stale \<longrightarrow> (\<exists>k. resolveKey ext git' (DeferredNext c u goBackCommand fileLog) = (k, [?q])
              \<and> (k \<noteq> KeyNoopCommand \<longleftrightarrow>
                   (\<exists>n. findNextCommit git' (GitLogCommit.repoPath c) (Uri.fsPath u) (GitLogCommit.sha c)
                           = Some n \<and> GitLogCommit.sha n \<noteq> GitLogCommit.sha c))
              \<and> (\<forall>n. findNextCommit git' (GitLogCommit.repoPath c) (Uri.fsPath u) (GitLogCommit.sha c)
                           = Some n \<and> GitLogCommit.sha n \<noteq> GitLogCommit.sha c \<longrightarrow>
                   k = KeyCommandQuickPickItem ShowQuickCommitFileDetails
                         [UriArg (nextUri ext
                            (c\<lparr>nextSha := Some (GitLogCommit.sha n),
                               nextFileName := Some (if truthy (originalFileName n)
                                                     then the (originalFileName n) else fileName n)\<rparr>)),
                          ShowQuickCommitFileDetailsCommandArgs None (GitLogCommit.sha n) goBackCommand]))"
  proof
    assume s: ?stale
    from nextCommand_stale [OF s, of ?q u ext git' goBackCommand] obtain k c' where
      nc: "nextCommand ext git' c u goBackCommand fileLog = ((k, c'), [?q])"
      and k: "(case findNextCommit git' (GitLogCommit.repoPath c) (Uri.fsPath u) (GitLogCommit.sha c) of
          None \<Rightarrow> k = KeyNoopCommand \<and> c' = c
        | Some n \<Rightarrow>
            if GitLogCommit.sha n \<noteq> GitLogCommit.sha c then
              c' = c\<lparr>nextSha := Some (GitLogCommit.sha n),
                      nextFileName := Some (if truthy (originalFileName n) then the (originalFileName n)
                                            else fileName n)\<rparr>
              \<and> k = KeyCommandQuickPickItem ShowQuickCommitFileDetails
                    [UriArg (nextUri ext c'),
                     ShowQuickCommitFileDetailsCommandArgs None (GitLogCommit.sha n) goBackCommand]
            else k = KeyNoopCommand \<and> c' = c)"
      by blast
    have r: "resolveKey ext git' (DeferredNext c u goBackCommand fileLog) = (k, [?q])"
      using nc by simp
    show "\<exists>k. resolveKey ext git' (DeferredNext c u goBackCommand fileLog) = (k, [?q])
              \<and> (k \<noteq> KeyNoopCommand \<longleftrightarrow>
                   (\<exists>n. findNextCommit git' (GitLogCommit.repoPath c) (Uri.fsPath u) (GitLogCommit.sha c)
                           = Some n \<and> GitLogCommit.sha n \<noteq> GitLogCommit.sha c))
              \<and> (\<forall>n. findNextCommit git' (GitLogCommit.repoPath c) (Uri.fsPath u) (GitLogCommit.sha c)
                           = Some n \<and> GitLogCommit.sha n \<noteq> GitLogCommit.sha c \<longrightarrow>
                   k = KeyCommandQuickPickItem ShowQuickCommitFileDetails
                         [UriArg (nextUri ext
                            (c\<lparr>nextSha := Some (GitLogCommit.sha n),
                               nextFileName := Some (if truthy (originalFileName n)
                                                     then the (originalFileName n) else fileName n)\<rparr>)),
                          ShowQuickCommitFileDetailsCommandArgs None (GitLogCommit.sha n) goBackCommand])"
      using r k
      by (cases "findNextCommit git' (GitLogCommit.repoPath c) (Uri.fsPath u) (GitLogCommit.sha c)")
         (auto split: if_splits)
  qed
  with c b show ?thesis by simp
qed

theorem C2_stale_next_link_sample:
  "type first_commit \<noteq> Stash \<and> \<not> fullHistory None
   \<and> scopes (snd (CommitFileDetailsQuickPick_show sample_ext sample_git first_commit sample_uri
                     None None None)) =
       [\<lparr>left = None, comma = Some (DeferredPrevious first_commit sample_uri None None),
         period = Some (DeferredNext first_commit sample_uri None None)\<rparr>]
   \<and> resolveKey sample_ext sample_git (DeferredNext first_commit sample_uri None None) =
       (KeyCommandQuickPickItem ShowQuickCommitFileDetails
          [UriArg (Uri ''file'' ''/repo/a.ts''),
           ShowQuickCommitFileDetailsCommandArgs None ''c2'' None],
        [FindNextCommit ''/repo'' ''/repo/a.ts'' ''c1''])"
  using C2_stale_next_link_requeries_git
    [of first_commit None
        "\<lparr>left = None, comma = Some (DeferredPrevious first_commit sample_uri None None),
          period = Some (DeferredNext first_commit sample_uri None None)\<rparr>"
        sample_ext sample_git sample_uri None None sample_git]
  by (simp add: CommitFileDetailsQuickPick_show_def effectiveCommit_def showPicker_def buildItems_def
      remoteItems_def keyBindings_def fullHistory_def nextCommand_def nextKeyCommand_def truthy_def
      sample_ext_def sample_git_def sample_uri_def first_commit_def
      last_commit_def full_log_def Let_def)

text \<open>
  C2 as stated fails where the file log is the complete history: the last commit of the
  file is in the log and has no next sha, so its link is stale in the sense of the claim,
  yet no command is bound to the key and the git service is not asked for the next commit.
\<close>

theorem C2_full_history_last_commit_has_no_next_command:
  "type last_commit \<noteq> Stash
   \<and> map_of (commits full_log) (GitLogCommit.sha last_commit) = Some last_commit
   \<and> nextSha last_commit = None
   \<and> scopes (snd (CommitFileDetailsQuickPick_show sample_ext sample_git last_commit sample_uri
                     None None (Some full_log))) =
       [\<lparr>left = None,
         comma = Some (Direct (KeyCommandQuickPickItem ShowQuickCommitFileDetails
                    [UriArg (Uri ''file'' ''/repo/a.ts''),
                     ShowQuickCommitFileDetailsCommandArgs (Some full_log) ''c1'' None])),
         period = None\<rparr>]
   \<and> gitQueries (snd (CommitFileDetailsQuickPick_show sample_ext sample_git last_commit sample_uri
                         None None (Some full_log))) = [GetRemotes ''/repo'']"
  by (simp add: CommitFileDetailsQuickPick_show_def effectiveCommit_def showPicker_def buildItems_def
      remoteItems_def keyBindings_def fullHistory_def sample_ext_def sample_git_def first_commit_def
      last_commit_def full_log_def Let_def)

end
